theory Spec2Isabelle
  imports Main "HOL-Library.Stream"
begin

section \<open>The configuration wizard of mc-status-bot (setup.py)\<close>

text \<open>
  A shallow embedding of \<^verbatim>\<open>setup.py\<close>. Python values are a small datatype, the
  terminal is a world record (the lines the operator is going to type, the prompts
  rendered so far, the lines printed so far, the documents dumped to config.yml), raised
  exceptions are values of \<open>error\<close>, and every \<^verbatim>\<open>while True\<close> loop is a
  \<^theory_text>\<open>partial_function (option)\<close>: a run that reads lines forever is \<open>None\<close>.

  Scope of the model: lines are ASCII texts; the operator never closes the terminal (the
  lines to come form an endless stream); the document library reads and writes without
  failing. The interpreter's bound on the digits of an integer string is a field of the
  world, since it differs between interpreter versions.
\<close>

subsection \<open>Python values and builtins\<close>

datatype pyval = PNone | PStr string | PInt int

datatype error =
  ValueError | AttributeError | TypeError | NameError | OSError | FileNotFoundError

text \<open>Truthiness, as \<^verbatim>\<open>if default\<close> tests it.\<close>

fun truthy :: "pyval \<Rightarrow> bool" where
  "truthy PNone = False"
| "truthy (PStr s) = (s \<noteq> [])"
| "truthy (PInt i) = (i \<noteq> 0)"

definition digit_char :: "nat \<Rightarrow> char" where
  "digit_char d = ''0123456789'' ! d"

fun str_nat :: "nat \<Rightarrow> string" where
  "str_nat n = (if n < 10 then [digit_char n] else str_nat (n div 10) @ [digit_char (n mod 10)])"

definition str_int :: "int \<Rightarrow> string" where
  "str_int i = (if i < 0 then CHR ''-'' # str_nat (nat (- i)) else str_nat (nat i))"

text \<open>\<^verbatim>\<open>str(v)\<close>, which an f-string applies to the value it formats.\<close>

fun py_str :: "pyval \<Rightarrow> string" where
  "py_str PNone = ''None''"
| "py_str (PStr s) = s"
| "py_str (PInt i) = str_int i"

text \<open>\<^verbatim>\<open>str.lower\<close> on ASCII.\<close>

definition lower_char :: "char \<Rightarrow> char" where
  "lower_char c =
     (case map_of (zip ''ABCDEFGHIJKLMNOPQRSTUVWXYZ'' ''abcdefghijklmnopqrstuvwxyz'') c of
        Some d \<Rightarrow> d
      | None \<Rightarrow> c)"

definition lower :: "string \<Rightarrow> string" where
  "lower s = map lower_char s"

text \<open>\<^verbatim>\<open>result.lower()\<close> on a value: only a string has the method.\<close>

fun py_lower :: "pyval \<Rightarrow> error + string" where
  "py_lower (PStr s) = Inr (lower s)"
| "py_lower v = Inl AttributeError"

text \<open>
  \<^verbatim>\<open>int(s)\<close> on an ASCII string, base ten: surrounding whitespace (space, tab, line
  feed, vertical tab, form feed, carriage return) is dropped, one sign may lead, and the
  digits may be grouped by single underscores. An interpreter with a bound \<open>m\<close> on
  integer strings (\<^verbatim>\<open>sys.get_int_max_str_digits()\<close>, 4300 by default from CPython 3.11
  on; 0 when there is no bound) refuses a number of more than \<open>m\<close> digits; it counts
  the digits only when there are more than 640.
\<close>

definition is_space :: "char \<Rightarrow> bool" where
  "is_space c = (c \<in> set [CHR '' '', CHR 0x09, CHR 0x0A, CHR 0x0B, CHR 0x0C, CHR 0x0D])"

definition digit_val :: "char \<Rightarrow> int option" where
  "digit_val c = map_of (zip ''0123456789'' [0, 1, 2, 3, 4, 5, 6, 7, 8, 9]) c"

fun scan_digits :: "string \<Rightarrow> int \<Rightarrow> int option" where
  "scan_digits [] acc = Some acc"
| "scan_digits (c # cs) acc =
     (case digit_val c of
        Some d \<Rightarrow> scan_digits cs (acc * 10 + d)
      | None \<Rightarrow>
          (if c = CHR ''_'' then
             (case cs of
                [] \<Rightarrow> None
              | c' # cs' \<Rightarrow>
                  (case digit_val c' of
                     Some d \<Rightarrow> scan_digits cs' (acc * 10 + d)
                   | None \<Rightarrow> None))
           else None))"

definition too_many_digits :: "nat \<Rightarrow> string \<Rightarrow> bool" where
  "too_many_digits m s =
     (let digits = length (filter (\<lambda>c. digit_val c \<noteq> None) s)
      in 640 < digits \<and> 0 < m \<and> m < digits)"

definition scan_number :: "nat \<Rightarrow> string \<Rightarrow> int option" where
  "scan_number m s =
     (case s of
        [] \<Rightarrow> None
      | c # cs \<Rightarrow>
          (case digit_val c of
             Some d \<Rightarrow>
               (case scan_digits cs d of
                  Some i \<Rightarrow> if too_many_digits m s then None else Some i
                | None \<Rightarrow> None)
           | None \<Rightarrow> None))"

definition strip :: "string \<Rightarrow> string" where
  "strip s = rev (dropWhile is_space (rev (dropWhile is_space s)))"

definition int_of_str :: "nat \<Rightarrow> string \<Rightarrow> int option" where
  "int_of_str m s =
     (case strip s of
        [] \<Rightarrow> None
      | c # cs \<Rightarrow>
          (if c = CHR ''-'' then map_option uminus (scan_number m cs)
           else if c = CHR ''+'' then scan_number m cs
           else scan_number m (c # cs)))"

text \<open>
  \<^verbatim>\<open>int(v)\<close> on a value: a string is parsed (ValueError when it is no number), an
  integer is returned as it is, None is a TypeError.
\<close>

fun py_int :: "nat \<Rightarrow> pyval \<Rightarrow> error + int" where
  "py_int m (PStr s) = (case int_of_str m s of Some i \<Rightarrow> Inr i | None \<Rightarrow> Inl ValueError)"
| "py_int m (PInt i) = Inr i"
| "py_int m PNone = Inl TypeError"

text \<open>\<^verbatim>\<open>sep.join(xs)\<close>.\<close>

fun join :: "string \<Rightarrow> string list \<Rightarrow> string" where
  "join sep [] = []"
| "join sep [x] = x"
| "join sep (x # y # ys) = x @ sep @ join sep (y # ys)"

subsection \<open>The terminal and the file\<close>

type_synonym config = "string \<rightharpoonup> pyval"

text \<open>
  What \<^verbatim>\<open>yaml.safe_load\<close> gives for config.yml: a mapping, or a value that is no mapping
  (None for an empty file, a scalar, a list).
\<close>

datatype document = NotAMapping | Mapping config

record world =
  stdin :: "string stream"
  prompts :: "string list"
  printed :: "string list"
  dumped :: "config list"
  config_yml :: "document option"
  update_deps_calls :: nat
  max_str_digits :: nat

text \<open>\<^verbatim>\<open>input(p)\<close> renders the prompt and reads the next line.\<close>

definition input :: "string \<Rightarrow> world \<Rightarrow> string \<times> world" where
  "input p w = (shd (stdin w), w\<lparr>stdin := stl (stdin w), prompts := prompts w @ [p]\<rparr>)"

definition print_line :: "string \<Rightarrow> world \<Rightarrow> world" where
  "print_line s w = w\<lparr>printed := printed w @ [s]\<rparr>"

text \<open>\<^verbatim>\<open>with open("config.yml", "w") as f: yaml.dump(config, f)\<close>.\<close>

definition dump :: "config \<Rightarrow> world \<Rightarrow> world" where
  "dump config w = w\<lparr>dumped := dumped w @ [config], config_yml := Some (Mapping config)\<rparr>"

subsection \<open>The prompting primitives\<close>

partial_function (option) y_n :: "string \<Rightarrow> world \<Rightarrow> (bool \<times> world) option" where
  "y_n q w =
     (case input (q @ '' (y/n): '') w of
        (ri, w') \<Rightarrow>
          if lower ri \<in> set [''yes'', ''y''] then Some (True, w')
          else if lower ri \<in> set [''no'', ''n''] then Some (False, w')
          else y_n q w')"

text \<open>The two assignments to \<^verbatim>\<open>default_text\<close> at the head of \<^verbatim>\<open>get_info\<close>.\<close>

definition default_text :: "pyval \<Rightarrow> bool \<Rightarrow> string" where
  "default_text default' optional =
     (let dt = (if truthy default' then '' ['' @ py_str default' @ '']'' else '' []'')
      in if optional then dt else '''')"

partial_function (option) get_info :: "string \<Rightarrow> pyval \<Rightarrow> bool \<Rightarrow> world \<Rightarrow> (pyval \<times> world) option" where
  "get_info question default' optional w =
     (case input (question @ default_text default' optional @ '': '') w of
        (result, w') \<Rightarrow>
          if result = [] \<and> optional then Some (default', w')
          else if \<not> optional \<and> result = [] then get_info question default' optional w'
          else Some (PStr result, w'))"

subsection \<open>The options\<close>

datatype option_class =
  ConfigOptionC | BotTokenC | PrefixC | ServerTypeC | ServerIPC | RefreshRateC
| MaintenceModeDetectionC

record ConfigOption =
  cls :: option_class
  name :: string
  help' :: string
  default' :: pyval
  optional :: bool

text \<open>\<^verbatim>\<open>ConfigOption.__init__\<close>, for an object of class \<open>c\<close>.\<close>

definition ConfigOption_init ::
  "option_class \<Rightarrow> string \<Rightarrow> string \<Rightarrow> pyval \<Rightarrow> bool \<Rightarrow> error + ConfigOption" where
  "ConfigOption_init c n h d opt =
     (if truthy d \<and> \<not> opt then Inl ValueError
      else Inr \<lparr>cls = c, name = n, help' = h, default' = d, optional = opt\<rparr>)"

definition BotToken :: "error + ConfigOption" where
  "BotToken = ConfigOption_init BotTokenC ''bot-token'' ''Enter the token for the bot'' PNone False"

definition Prefix :: "error + ConfigOption" where
  "Prefix = ConfigOption_init PrefixC ''prefix'' ''Enter the prefix for the bot'' (PStr '';'') True"

definition ServerType :: "error + ConfigOption" where
  "ServerType =
     ConfigOption_init ServerTypeC ''server-type''
       ''Enter the type of Minecraft server (Java or Bedrock)'' (PStr ''java'') True"

definition ServerIP :: "error + ConfigOption" where
  "ServerIP =
     ConfigOption_init ServerIPC ''server-ip''
       ''Enter the Minecraft server ip to display status for'' PNone False"

definition RefreshRate :: "error + ConfigOption" where
  "RefreshRate =
     ConfigOption_init RefreshRateC ''refresh-rate''
       ''Enter the amount of seconds to wait in between status refreshes'' (PInt 60) True"

definition MaintenceModeDetection :: "error + ConfigOption" where
  "MaintenceModeDetection =
     ConfigOption_init MaintenceModeDetectionC ''maintenance-mode-detection''
       ''Enter the text to look for in the MOTD'' PNone True"

text \<open>
  The module-level tuple \<^verbatim>\<open>OPTIONS\<close>: the six constructors run in this order when the
  module is loaded, and the first one that raises ends the load.
\<close>

fun sequence :: "(error + 'a) list \<Rightarrow> error + 'a list" where
  "sequence [] = Inr []"
| "sequence (x # xs) =
     (case x of
        Inl e \<Rightarrow> Inl e
      | Inr a \<Rightarrow> (case sequence xs of Inl e \<Rightarrow> Inl e | Inr as \<Rightarrow> Inr (a # as)))"

definition load_OPTIONS :: "error + ConfigOption list" where
  "load_OPTIONS =
     sequence [BotToken, Prefix, ServerType, ServerIP, RefreshRate, MaintenceModeDetection]"

definition OPTIONS :: "ConfigOption list" where
  "OPTIONS = (case load_OPTIONS of Inr os \<Rightarrow> os | Inl e \<Rightarrow> [])"

subsection \<open>The prompt of each class\<close>

type_synonym 'a run = "(((error + 'a) \<times> world) option)"

definition ConfigOption_prompt :: "ConfigOption \<Rightarrow> world \<Rightarrow> pyval run" where
  "ConfigOption_prompt self w =
     map_option (\<lambda>(result, w'). (Inr result, w'))
       (get_info (help' self) (default' self) (optional self) w)"

definition BotToken_prompt :: "ConfigOption \<Rightarrow> world \<Rightarrow> pyval run" where
  "BotToken_prompt self w =
     (let description = help' self @
        (''.'' @ [CHR 0x0A] @ ''You can get the bot'' @ [CHR 0x27] @ ''s token from the bot application. ''
         @ ''To learn how to create a bot application, visit https://discordpy.readthedocs.io/en/latest/discord.html'')
      in map_option (\<lambda>(result, w'). (Inr result, w'))
           (get_info description (default' self) (optional self) w))"

partial_function (option) ServerType_prompt :: "ConfigOption \<Rightarrow> world \<Rightarrow> pyval run" where
  "ServerType_prompt self w =
     Option.bind (get_info (help' self) (default' self) (optional self) w)
       (\<lambda>(result, w').
          case py_lower result of
            Inl e \<Rightarrow> Some (Inl e, w')
          | Inr result \<Rightarrow>
              if result \<in> set [''java'', ''bedrock''] then Some (Inr (PStr result), w')
              else ServerType_prompt self (print_line ''Please enter either Java or Bedrock.'' w'))"

text \<open>The line \<^verbatim>\<open>RefreshRate.prompt\<close> prints for a number below the bound.\<close>

definition seconds_message :: string where
  "seconds_message =
     ''Seconds must be 30 or higher. This is due to Discord'' @ [CHR 0x27]
     @ ''s ratelimit on changing statuses.''"

partial_function (option) RefreshRate_prompt :: "ConfigOption \<Rightarrow> world \<Rightarrow> pyval run" where
  "RefreshRate_prompt self w =
     Option.bind (get_info (help' self) (default' self) (optional self) w)
       (\<lambda>(result, w').
          case py_int (max_str_digits w') result of
            Inl e \<Rightarrow> if e = ValueError then RefreshRate_prompt self w' else Some (Inl e, w')
          | Inr result \<Rightarrow>
              if result \<ge> 30 then Some (Inr (PInt result), w')
              else RefreshRate_prompt self (print_line seconds_message w'))"

text \<open>The question of the gate in \<^verbatim>\<open>MaintenceModeDetection.prompt\<close>.\<close>

definition enable_question :: string where
  "enable_question =
     ''Would you like to enable maintenance mode detection? ''
     @ ''This will allow you to specify a substring to search for in the Minecraft server''
     @ [CHR 0x27] @ ''s MOTD. ''
     @ ''If the substring is found, the bot'' @ [CHR 0x27] @ ''s status is set to maintenance mode ''
     @ ''(DND presence with a maintenance mode message).''"

definition MaintenceModeDetection_prompt :: "ConfigOption \<Rightarrow> world \<Rightarrow> pyval run" where
  "MaintenceModeDetection_prompt self w =
     Option.bind
       (y_n enable_question w)
       (\<lambda>(enable, w').
          if \<not> enable then Some (Inr PNone, w')
          else map_option (\<lambda>(result, w''). (Inr result, w''))
                 (get_info (help' self) PNone False w'))"

text \<open>\<^verbatim>\<open>option.prompt()\<close>: the method of the object's class.\<close>

definition prompt :: "ConfigOption \<Rightarrow> world \<Rightarrow> pyval run" where
  "prompt self w =
     (case cls self of
        ConfigOptionC \<Rightarrow> ConfigOption_prompt self w
      | BotTokenC \<Rightarrow> BotToken_prompt self w
      | PrefixC \<Rightarrow> ConfigOption_prompt self w
      | ServerTypeC \<Rightarrow> ServerType_prompt self w
      | ServerIPC \<Rightarrow> ConfigOption_prompt self w
      | RefreshRateC \<Rightarrow> RefreshRate_prompt self w
      | MaintenceModeDetectionC \<Rightarrow> MaintenceModeDetection_prompt self w)"

subsection \<open>Reconciliation\<close>

definition get_option :: "string \<Rightarrow> ConfigOption option" where
  "get_option key = find (\<lambda>option. name option = key) OPTIONS"

text \<open>
  Python iterates a set of strings in an order the language does not fix; the order the
  interpreter picks is the parameter \<open>iter\<close>, which lists the elements of a set.
\<close>

fun fill_defaults :: "string list \<Rightarrow> config \<Rightarrow> error + config" where
  "fill_defaults [] config = Inr config"
| "fill_defaults (opt # opts) config =
     (case get_option opt of
        None \<Rightarrow> Inl AttributeError
      | Some option \<Rightarrow> fill_defaults opts (config(opt \<mapsto> default' option)))"

fun prompt_missing :: "string list \<Rightarrow> config \<Rightarrow> world \<Rightarrow> config run" where
  "prompt_missing [] config w = Some (Inr config, w)"
| "prompt_missing (opt # opts) config w =
     (case get_option opt of
        None \<Rightarrow> Some (Inl AttributeError, w)
      | Some option \<Rightarrow>
          (case prompt option w of
             None \<Rightarrow> None
           | Some (Inl e, w') \<Rightarrow> Some (Inl e, w')
           | Some (Inr result, w') \<Rightarrow> prompt_missing opts (config(opt \<mapsto> result)) w'))"

text \<open>The question of the gate in \<^verbatim>\<open>ensure_config_keys\<close>.\<close>

definition set_to_default_question :: string where
  "set_to_default_question =
     ''Automatically set these options to default? You can come back and change these later.''"

definition ensure_config_keys ::
  "(string set \<Rightarrow> string list) \<Rightarrow> config \<Rightarrow> world \<Rightarrow> config run" where
  "ensure_config_keys iter config w =
     (let all_keys = map name OPTIONS;
          missing_opts = set all_keys - dom config
      in if missing_opts \<noteq> {} then
           (let joined = join '', '' (iter missing_opts);
                w1 = print_line (''There are missing options in your config file: '' @ joined) w
            in case y_n set_to_default_question w1 of
                 None \<Rightarrow> None
               | Some (set_to_default, w2) \<Rightarrow>
                   (case (if set_to_default then Some (fill_defaults (iter missing_opts) config, w2)
                          else prompt_missing (iter missing_opts) config w2) of
                      None \<Rightarrow> None
                    | Some (Inl e, w3) \<Rightarrow> Some (Inl e, w3)
                    | Some (Inr config', w3) \<Rightarrow>
                        Some (Inr config', print_line ''Successfully updated config'' (dump config' w3))))
         else Some (Inr config, print_line ''Config is up-to-date'' w))"

subsection \<open>Editing an existing document\<close>

text \<open>The inner loop of \<^verbatim>\<open>run_config_adjustments\<close>: ask until a registry name is entered.\<close>

partial_function (option) ask_to_change :: "string list \<Rightarrow> string \<Rightarrow> world \<Rightarrow> string run" where
  "ask_to_change all_keys formatted w =
     (case get_info
             (''Options: '' @ formatted @ [CHR 0x0A]
              @ ''View more about each option here: https://github.com/Fyssion/mc-status-bot#setup-details''
              @ [CHR 0x0A] @ ''Enter option to change'') PNone False w of
        None \<Rightarrow> None
      | Some (to_change, w') \<Rightarrow>
          (case py_lower to_change of
             Inl e \<Rightarrow> Some (Inl e, w')
           | Inr to_change \<Rightarrow>
               if to_change \<in> set all_keys then Some (Inr to_change, w')
               else ask_to_change all_keys formatted w'))"

text \<open>The outer loop: one option is changed per round.\<close>

partial_function (option) change_loop ::
  "string list \<Rightarrow> string \<Rightarrow> config \<Rightarrow> world \<Rightarrow> config run" where
  "change_loop all_keys formatted current_config w =
     (case ask_to_change all_keys formatted w of
        None \<Rightarrow> None
      | Some (Inl e, w1) \<Rightarrow> Some (Inl e, w1)
      | Some (Inr to_change, w1) \<Rightarrow>
          (case get_option to_change of
             None \<Rightarrow> Some (Inl AttributeError, w1)
           | Some option \<Rightarrow>
               (case prompt option w1 of
                  None \<Rightarrow> None
                | Some (Inl e, w2) \<Rightarrow> Some (Inl e, w2)
                | Some (Inr change_to, w2) \<Rightarrow>
                    (case y_n ''Change another option?'' w2 of
                       None \<Rightarrow> None
                     | Some (again, w3) \<Rightarrow>
                         if \<not> again then Some (Inr (current_config(to_change \<mapsto> change_to)), w3)
                         else change_loop all_keys formatted
                                (current_config(to_change \<mapsto> change_to)) w3))))"

definition run_config_adjustments ::
  "(string set \<Rightarrow> string list) \<Rightarrow> string list \<Rightarrow> string \<Rightarrow> world \<Rightarrow> unit run" where
  "run_config_adjustments iter all_keys formatted w =
     (case config_yml w of
        None \<Rightarrow> Some (Inl FileNotFoundError, w)
      | Some NotAMapping \<Rightarrow> Some (Inl AttributeError, w)
      | Some (Mapping loaded) \<Rightarrow>
          (case ensure_config_keys iter loaded w of
             None \<Rightarrow> None
           | Some (Inl e, w1) \<Rightarrow> Some (Inl e, w1)
           | Some (Inr current_config, w1) \<Rightarrow>
               (case y_n ''Change info in config file?'' w1 of
                  None \<Rightarrow> None
                | Some (change, w2) \<Rightarrow>
                    if \<not> change then Some (Inr (), w2)
                    else
                      (case change_loop all_keys formatted current_config w2 of
                         None \<Rightarrow> None
                       | Some (Inl e, w3) \<Rightarrow> Some (Inl e, w3)
                       | Some (Inr current_config, w3) \<Rightarrow>
                           Some (Inr (),
                                 print_line ''Successfully updated your config''
                                   (dump current_config w3))))))"

subsection \<open>The top level\<close>

text \<open>
  What \<^verbatim>\<open>run_setup\<close> depends on and does not define. \<open>set_iter\<close> is the iteration
  order of a set. \<^verbatim>\<open>update_deps\<close> is called by \<^verbatim>\<open>run_setup\<close>, and setup.py neither
  defines nor imports that name: \<open>update_deps_bound\<close> says whether the name is bound when
  the call is made (in the module as it stands it is not, and the call raises NameError).
  \<open>yaml_importable n\<close> says whether \<^verbatim>\<open>import yaml\<close> succeeds once \<open>n\<close> calls of
  \<^verbatim>\<open>update_deps\<close> have returned.
\<close>

record env =
  set_iter :: "string set \<Rightarrow> string list"
  update_deps_bound :: bool
  yaml_importable :: "nat \<Rightarrow> bool"

text \<open>
  The \<^verbatim>\<open>while loops < 2\<close> loop at the head of \<^verbatim>\<open>run_setup\<close>. Every import that is
  tried is counted in \<open>import_attempts\<close>.
\<close>

record boot =
  loops :: nat
  import_attempts :: nat

function import_yaml :: "env \<Rightarrow> boot \<Rightarrow> world \<Rightarrow> (error + unit) \<times> boot \<times> world" where
  "import_yaml e b w =
     (if loops b < 2 then
        (let b1 = b\<lparr>import_attempts := Suc (import_attempts b)\<rparr>
         in if yaml_importable e (update_deps_calls w) then (Inr (), b1, w)
            else
              (let w1 = print_line ''Oh no! PyYAML is not installed. Trying to fix...'' w;
                   b2 = b1\<lparr>loops := loops b1 + 1\<rparr>
               in if \<not> update_deps_bound e then (Inl NameError, b2, w1)
                  else
                    (let w2 = w1\<lparr>update_deps_calls := Suc (update_deps_calls w1)\<rparr>
                     in if loops b2 \<ge> 2 then (Inl OSError, b2, w2)
                        else import_yaml e b2 w2)))
      else (Inr (), b, w))"
  by pat_completeness auto
termination
  by (relation "measure (\<lambda>(e, b, w). 2 - loops b)") auto

fun prompt_all :: "ConfigOption list \<Rightarrow> config \<Rightarrow> world \<Rightarrow> config run" where
  "prompt_all [] config w = Some (Inr config, w)"
| "prompt_all (option # options) config w =
     (case prompt option w of
        None \<Rightarrow> None
      | Some (Inl e, w') \<Rightarrow> Some (Inl e, w')
      | Some (Inr result, w') \<Rightarrow> prompt_all options (config(name option \<mapsto> result)) w')"

definition run_setup :: "env \<Rightarrow> world \<Rightarrow> unit run" where
  "run_setup e w =
     (case import_yaml e \<lparr>loops = 0, import_attempts = 0\<rparr> w of
        (Inl err, b, w1) \<Rightarrow> Some (Inl err, w1)
      | (Inr u, b, w1) \<Rightarrow>
          (let all_keys = map name OPTIONS;
               formatted = join '', '' all_keys;
               config_exists = (config_yml w1 \<noteq> None)
           in if config_exists then run_config_adjustments (set_iter e) all_keys formatted w1
              else
                (case prompt_all OPTIONS Map.empty
                        (print_line ''Config file not found, initiating setup...'' w1) of
                   None \<Rightarrow> None
                 | Some (Inl err, w2) \<Rightarrow> Some (Inl err, w2)
                 | Some (Inr config, w2) \<Rightarrow>
                     Some (Inr (),
                           print_line ''Successfully created and setup config'' (dump config w2)))))"

definition main :: "env \<Rightarrow> world \<Rightarrow> unit run" where
  "main e w =
     (case run_setup e (print_line ''Starting...'' w) of
        None \<Rightarrow> None
      | Some (Inl err, w') \<Rightarrow> Some (Inl err, w')
      | Some (Inr u, w') \<Rightarrow> Some (Inr (), print_line ''Done. You may now run the bot.'' w'))"

section \<open>Properties\<close>

subsection \<open>The registry\<close>

lemma OPTIONS_eq:
  "OPTIONS =
     [\<lparr>cls = BotTokenC, name = ''bot-token'', help' = ''Enter the token for the bot'',
        default' = PNone, optional = False\<rparr>,
      \<lparr>cls = PrefixC, name = ''prefix'', help' = ''Enter the prefix for the bot'',
        default' = PStr '';'', optional = True\<rparr>,
      \<lparr>cls = ServerTypeC, name = ''server-type'',
        help' = ''Enter the type of Minecraft server (Java or Bedrock)'',
        default' = PStr ''java'', optional = True\<rparr>,
      \<lparr>cls = ServerIPC, name = ''server-ip'',
        help' = ''Enter the Minecraft server ip to display status for'',
        default' = PNone, optional = False\<rparr>,
      \<lparr>cls = RefreshRateC, name = ''refresh-rate'',
        help' = ''Enter the amount of seconds to wait in between status refreshes'',
        default' = PInt 60, optional = True\<rparr>,
      \<lparr>cls = MaintenceModeDetectionC, name = ''maintenance-mode-detection'',
        help' = ''Enter the text to look for in the MOTD'',
        default' = PNone, optional = True\<rparr>]"
  by (simp add: OPTIONS_def load_OPTIONS_def BotToken_def Prefix_def ServerType_def ServerIP_def
        RefreshRate_def MaintenceModeDetection_def ConfigOption_init_def)

lemma all_keys_eq:
  "map name OPTIONS =
     [''bot-token'', ''prefix'', ''server-type'', ''server-ip'', ''refresh-rate'',
      ''maintenance-mode-detection'']"
  by (simp add: OPTIONS_eq)

lemma get_option_Some:
  "key \<in> set (map name OPTIONS) \<Longrightarrow> \<exists>option. get_option key = Some option \<and> name option = key"
  unfolding get_option_def
  by (cases "find (\<lambda>option. name option = key) OPTIONS") (auto simp: find_None_iff find_Some_iff)

lemma get_option_defaults:
  "map_option default' (get_option ''bot-token'') = Some PNone"
  "map_option default' (get_option ''prefix'') = Some (PStr '';'')"
  "map_option default' (get_option ''server-type'') = Some (PStr ''java'')"
  "map_option default' (get_option ''server-ip'') = Some PNone"
  "map_option default' (get_option ''refresh-rate'') = Some (PInt 60)"
  "map_option default' (get_option ''maintenance-mode-detection'') = Some PNone"
  by (simp_all add: get_option_def OPTIONS_eq)

lemma fill_defaults_eq:
  "set opts \<subseteq> set (map name OPTIONS) \<Longrightarrow>
   fill_defaults opts config =
     Inr (\<lambda>k. if k \<in> set opts then map_option default' (get_option k) else config k)"
proof (induction opts arbitrary: config)
  case Nil
  then show ?case by simp
next
  case (Cons opt opts)
  from Cons.prems obtain option where g: "get_option opt = Some option"
    using get_option_Some [of opt] by auto
  from Cons.prems have sub: "set opts \<subseteq> set (map name OPTIONS)" by simp
  show ?case
    by (simp add: g Cons.IH [OF sub] fun_eq_iff)
qed

subsection \<open>The yes/no gate\<close>

lemma y_n_yes:
  "lower (shd (stdin w)) \<in> {''yes'', ''y''} \<Longrightarrow>
   y_n q w = Some (True, snd (input (q @ '' (y/n): '') w))"
  by (subst y_n.simps) (simp add: input_def)

lemma y_n_no:
  "lower (shd (stdin w)) \<in> {''no'', ''n''} \<Longrightarrow>
   y_n q w = Some (False, snd (input (q @ '' (y/n): '') w))"
  by (subst y_n.simps) (auto simp add: input_def)

lemma y_n_again:
  "lower (shd (stdin w)) \<notin> {''yes'', ''y'', ''no'', ''n''} \<Longrightarrow>
   y_n q w = y_n q (snd (input (q @ '' (y/n): '') w))"
  by (subst y_n.simps) (simp add: input_def)

text \<open>The gate asks nothing but its own question, once per line it reads.\<close>

lemma y_n_prompts:
  assumes "y_n q w = Some (b, w')"
  shows "\<exists>n. prompts w' = prompts w @ replicate (Suc n) (q @ '' (y/n): '')"
proof -
  have "\<exists>n. prompts (snd y) = prompts w @ replicate (Suc n) (q @ '' (y/n): '')"
    if "y_n q w = Some y" for y
    using that
  proof (induction rule: y_n.raw_induct [rotated 1, consumes 1])
    case (1 y_n' q w y)
    let ?p = "q @ '' (y/n): ''"
    let ?w = "w\<lparr>stdin := stl (stdin w), prompts := prompts w @ [?p]\<rparr>"
    show ?case
    proof (cases "lower (shd (stdin w)) \<in> {''yes'', ''y'', ''no'', ''n''}")
      case True
      with 1(2) have "prompts (snd y) = prompts w @ replicate (Suc 0) ?p"
        by (auto simp: input_def split: if_splits)
      then show ?thesis by blast
    next
      case False
      with 1(2) have "y_n' q ?w = Some y"
        by (simp add: input_def)
      from 1(1) [OF this] obtain n where "prompts (snd y) = prompts ?w @ replicate (Suc n) ?p"
        by blast
      then have "prompts (snd y) = prompts w @ replicate (Suc (Suc n)) ?p"
        by simp
      then show ?thesis by blast
    qed
  qed
  from this [OF assms] show ?thesis by simp
qed

subsection \<open>The prompting primitive\<close>

lemma default_text_required [simp]: "default_text d False = []"
  by (simp add: default_text_def)

lemma get_info_optional:
  "get_info q d True w =
     Some (if shd (stdin w) = [] then d else PStr (shd (stdin w)),
           snd (input (q @ default_text d True @ '': '') w))"
  by (subst get_info.simps) (simp add: input_def)

lemma get_info_required_nonempty:
  "shd (stdin w) \<noteq> [] \<Longrightarrow>
   get_info q d False w = Some (PStr (shd (stdin w)), snd (input (q @ '': '') w))"
  by (subst get_info.simps) (simp add: input_def)

lemma get_info_required_empty:
  "shd (stdin w) = [] \<Longrightarrow> get_info q d False w = get_info q d False (snd (input (q @ '': '') w))"
  by (subst get_info.simps) (simp add: input_def)

lemma get_info_required_skips:
  "stdin w = replicate n [] @- (l ## rest) \<Longrightarrow> l \<noteq> [] \<Longrightarrow>
   get_info q d False w =
     Some (PStr l, w\<lparr>stdin := rest, prompts := prompts w @ replicate (Suc n) (q @ '': '')\<rparr>)"
proof (induction n arbitrary: w)
  case 0
  then show ?case
    by (simp add: get_info_required_nonempty input_def)
next
  case (Suc n)
  let ?w = "snd (input (q @ '': '') w)"
  from Suc.prems have "shd (stdin w) = []" and "stdin ?w = replicate n [] @- (l ## rest)"
    by (simp_all add: input_def)
  with Suc.IH [of ?w] Suc.prems(2) show ?case
    by (simp add: get_info_required_empty input_def replicate_append_same)
qed

lemma get_info_result:
  assumes "get_info q d opt w = Some (r, w')"
  shows "(\<exists>s. s \<noteq> [] \<and> r = PStr s) \<or> (opt \<and> r = d)"
proof -
  have "(\<exists>s. s \<noteq> [] \<and> fst y = PStr s) \<or> (opt \<and> fst y = d)"
    if "get_info q d opt w = Some y" for y
    using that
  proof (induction rule: get_info.raw_induct [rotated 1, consumes 1])
    case (1 get_info' q d opt w y)
    show ?case
    proof (cases "shd (stdin w) = [] \<and> \<not> opt")
      case True
      with 1(2) have "get_info' q d opt (snd (input (q @ default_text d opt @ '': '') w)) = Some y"
        by (simp add: input_def)
      then show ?thesis by (rule 1(1))
    next
      case False
      with 1(2) show ?thesis
        by (auto simp: input_def split: if_splits)
    qed
  qed
  from this [OF assms] show ?thesis by simp
qed

lemma get_info_required_some_line:
  assumes "get_info q d False w = Some y"
  shows "\<exists>k. stdin w !! k \<noteq> []"
proof -
  have "\<not> opt \<longrightarrow> (\<exists>k. stdin w !! k \<noteq> [])"
    if "get_info q d opt w = Some y" for opt
    using that
  proof (induction rule: get_info.raw_induct [rotated 1, consumes 1])
    case (1 get_info' q d opt w y)
    show ?case
    proof (cases "shd (stdin w) = [] \<and> \<not> opt")
      case True
      with 1(2) have "get_info' q d opt (snd (input (q @ default_text d opt @ '': '') w)) = Some y"
        by (simp add: input_def)
      from 1(1) [OF this] True obtain k where "stl (stdin w) !! k \<noteq> []"
        by (auto simp: input_def)
      then have "stdin w !! Suc k \<noteq> []" by simp
      then show ?thesis by blast
    next
      case False
      then have "opt \<or> stdin w !! 0 \<noteq> []" by auto
      then show ?thesis by blast
    qed
  qed
  from this [OF assms] show ?thesis by simp
qed

lemma get_info_required_blocks:
  "(\<forall>k. stdin w !! k = []) \<Longrightarrow> get_info q d False w = None"
  using get_info_required_some_line [of q d w] by (cases "get_info q d False w") auto

lemma get_info_prompts:
  assumes "get_info q d opt w = Some (r, w')"
  shows "\<exists>n. prompts w' = prompts w @ replicate (Suc n) (q @ default_text d opt @ '': '')"
proof -
  have "\<exists>n. prompts (snd y) = prompts w @ replicate (Suc n) (q @ default_text d opt @ '': '')"
    if "get_info q d opt w = Some y" for y
    using that
  proof (induction rule: get_info.raw_induct [rotated 1, consumes 1])
    case (1 get_info' q d opt w y)
    let ?p = "q @ default_text d opt @ '': ''"
    let ?w = "snd (input ?p w)"
    show ?case
    proof (cases "shd (stdin w) = [] \<and> \<not> opt")
      case True
      with 1(2) have "get_info' q d opt ?w = Some y"
        by (simp add: input_def)
      from 1(1) [OF this] obtain n where "prompts (snd y) = prompts ?w @ replicate (Suc n) ?p"
        by blast
      then have "prompts (snd y) = prompts w @ replicate (Suc (Suc n)) ?p"
        by (simp add: input_def)
      then show ?thesis by blast
    next
      case False
      with 1(2) have "prompts (snd y) = prompts w @ replicate (Suc 0) ?p"
        by (auto simp: input_def split: if_splits)
      then show ?thesis by blast
    qed
  qed
  from this [OF assms] show ?thesis by simp
qed

subsection \<open>Reconciliation\<close>

text \<open>The branch of \<^verbatim>\<open>ensure_config_keys\<close> that fills in the defaults.\<close>

lemma ensure_config_keys_set_to_default:
  assumes missing: "set (map name OPTIONS) - dom config = M" "M \<noteq> {}"
      and iter: "set (iter M) = M"
      and gate: "y_n set_to_default_question
                   (print_line (''There are missing options in your config file: ''
                                @ join '', '' (iter M)) w) = Some (True, w2)"
  shows "ensure_config_keys iter config w =
           Some (Inr (\<lambda>k. if k \<in> M then map_option default' (get_option k) else config k),
                 print_line ''Successfully updated config''
                   (dump (\<lambda>k. if k \<in> M then map_option default' (get_option k) else config k) w2))"
proof -
  have sub: "set (iter M) \<subseteq> set (map name OPTIONS)"
    using missing iter by auto
  show ?thesis
    unfolding ensure_config_keys_def Let_def
    using missing gate by (simp add: fill_defaults_eq [OF sub] iter)
qed

text \<open>
  Claim C1. A loaded document whose keys already cover every option name of the registry
  is returned as it is: the reconciliation reads no line (no prompt, no gate question),
  dumps nothing, and only prints that the configuration is up to date.
\<close>

theorem ensure_config_keys_up_to_date:
  assumes "set (map name OPTIONS) \<subseteq> dom config"
  shows "ensure_config_keys iter config w =
           Some (Inr config, w\<lparr>printed := printed w @ [''Config is up-to-date'']\<rparr>)"
proof -
  from assms have "set (map name OPTIONS) - dom config = {}" by blast
  then show ?thesis
    unfolding ensure_config_keys_def Let_def by (simp add: print_line_def)
qed

theorem ensure_config_keys_up_to_date_witness:
  "ensure_config_keys (\<lambda>S. [])
     [''bot-token'' \<mapsto> PStr ''abc'', ''prefix'' \<mapsto> PStr ''!'', ''server-type'' \<mapsto> PStr ''java'',
      ''server-ip'' \<mapsto> PStr ''mc.example.org'', ''refresh-rate'' \<mapsto> PInt 45,
      ''maintenance-mode-detection'' \<mapsto> PNone, ''extra'' \<mapsto> PInt 1]
     \<lparr>stdin = sconst ''n'', prompts = [], printed = [], dumped = [], config_yml = None,
      update_deps_calls = 0, max_str_digits = 4300\<rparr>
   = Some (Inr [''bot-token'' \<mapsto> PStr ''abc'', ''prefix'' \<mapsto> PStr ''!'', ''server-type'' \<mapsto> PStr ''java'',
      ''server-ip'' \<mapsto> PStr ''mc.example.org'', ''refresh-rate'' \<mapsto> PInt 45,
      ''maintenance-mode-detection'' \<mapsto> PNone, ''extra'' \<mapsto> PInt 1],
     \<lparr>stdin = sconst ''n'', prompts = [], printed = [''Config is up-to-date''], dumped = [],
      config_yml = None, update_deps_calls = 0, max_str_digits = 4300\<rparr>)"
  using ensure_config_keys_up_to_date [of
     "[''bot-token'' \<mapsto> PStr ''abc'', ''prefix'' \<mapsto> PStr ''!'', ''server-type'' \<mapsto> PStr ''java'',
      ''server-ip'' \<mapsto> PStr ''mc.example.org'', ''refresh-rate'' \<mapsto> PInt 45,
      ''maintenance-mode-detection'' \<mapsto> PNone, ''extra'' \<mapsto> PInt 1]" "\<lambda>S. []"
     "\<lparr>stdin = sconst ''n'', prompts = [], printed = [], dumped = [], config_yml = None,
      update_deps_calls = 0, max_str_digits = 4300\<rparr>"]
  by (simp add: all_keys_eq)


text \<open>
  Claim C2. A document that misses exactly the keys prefix and refresh-rate, with the
  gate answered yes, becomes the same document with prefix set to the default of the
  Prefix option (";") and refresh-rate set to the default of the RefreshRate option (60).
  Every key the document had, registry name or not, keeps its value, and no key is lost.
\<close>

theorem ensure_config_keys_prefix_refresh_rate:
  assumes objs: "Prefix = Inr p" "RefreshRate = Inr r"
      and missing: "set (map name OPTIONS) - dom config = {''prefix'', ''refresh-rate''}"
      and iter: "set (iter {''prefix'', ''refresh-rate''}) = {''prefix'', ''refresh-rate''}"
      and gate: "y_n set_to_default_question
                   (print_line (''There are missing options in your config file: ''
                                @ join '', '' (iter {''prefix'', ''refresh-rate''})) w) = Some (True, w2)"
  shows "ensure_config_keys iter config w =
           Some (Inr (config(''prefix'' \<mapsto> default' p, ''refresh-rate'' \<mapsto> default' r)),
                 print_line ''Successfully updated config''
                   (dump (config(''prefix'' \<mapsto> default' p, ''refresh-rate'' \<mapsto> default' r)) w2))
         \<and> default' p = PStr '';'' \<and> default' r = PInt 60
         \<and> (\<forall>k\<in>dom config.
               (config(''prefix'' \<mapsto> default' p, ''refresh-rate'' \<mapsto> default' r)) k = config k)"
proof -
  let ?M = "{''prefix'', ''refresh-rate''}"
  let ?c = "\<lambda>k. if k \<in> ?M then map_option default' (get_option k) else config k"
  have ne: "?M \<noteq> {}" by simp
  have run: "ensure_config_keys iter config w =
               Some (Inr ?c, print_line ''Successfully updated config'' (dump ?c w2))"
    using missing ne iter gate by (rule ensure_config_keys_set_to_default)
  have p: "default' p = PStr '';''" and r: "default' r = PInt 60"
    using objs by (auto simp: Prefix_def RefreshRate_def ConfigOption_init_def)
  have c: "?c = config(''prefix'' \<mapsto> default' p, ''refresh-rate'' \<mapsto> default' r)"
    by (simp add: fun_eq_iff p r get_option_defaults)
  have notin: "''prefix'' \<notin> dom config" "''refresh-rate'' \<notin> dom config"
    using missing by blast+
  have frame: "\<forall>k\<in>dom config.
                 (config(''prefix'' \<mapsto> default' p, ''refresh-rate'' \<mapsto> default' r)) k = config k"
    using notin by auto
  from run p r frame show ?thesis
    unfolding c by simp
qed

theorem ensure_config_keys_prefix_refresh_rate_witness:
  "(case ensure_config_keys (\<lambda>S. [''refresh-rate'', ''prefix''])
       [''bot-token'' \<mapsto> PStr ''abc'', ''server-type'' \<mapsto> PStr ''bedrock'',
        ''server-ip'' \<mapsto> PStr ''mc.example.org'', ''maintenance-mode-detection'' \<mapsto> PNone,
        ''colour'' \<mapsto> PStr ''red'']
       \<lparr>stdin = ''Y'' ## sconst [], prompts = [], printed = [], dumped = [], config_yml = None,
        update_deps_calls = 0, max_str_digits = 4300\<rparr> of
      Some (Inr config', w') \<Rightarrow>
        config' ''prefix'' = Some (PStr '';'') \<and> config' ''refresh-rate'' = Some (PInt 60)
        \<and> config' ''bot-token'' = Some (PStr ''abc'') \<and> config' ''colour'' = Some (PStr ''red'')
        \<and> dumped w' = [config'] \<and> stdin w' = sconst []
    | _ \<Rightarrow> False)"
proof -
  let ?config = "[''bot-token'' \<mapsto> PStr ''abc'', ''server-type'' \<mapsto> PStr ''bedrock'',
        ''server-ip'' \<mapsto> PStr ''mc.example.org'', ''maintenance-mode-detection'' \<mapsto> PNone,
        ''colour'' \<mapsto> PStr ''red'']"
  let ?w = "\<lparr>stdin = ''Y'' ## sconst [], prompts = [], printed = [], dumped = [], config_yml = None,
        update_deps_calls = 0, max_str_digits = 4300\<rparr>"
  let ?p = "\<lparr>cls = PrefixC, name = ''prefix'', help' = ''Enter the prefix for the bot'',
        default' = PStr '';'', optional = True\<rparr>"
  let ?r = "\<lparr>cls = RefreshRateC, name = ''refresh-rate'',
        help' = ''Enter the amount of seconds to wait in between status refreshes'',
        default' = PInt 60, optional = True\<rparr>"
  let ?iter = "\<lambda>S::string set. [''refresh-rate'', ''prefix'']"
  let ?w1 = "print_line (''There are missing options in your config file: ''
              @ join '', '' (?iter {''prefix'', ''refresh-rate''})) ?w"
  have p: "Prefix = Inr ?p" and r: "RefreshRate = Inr ?r"
    by (simp_all add: Prefix_def RefreshRate_def ConfigOption_init_def)
  have missing: "set (map name OPTIONS) - dom ?config = {''prefix'', ''refresh-rate''}"
    by (auto simp: all_keys_eq)
  have iter: "set (?iter {''prefix'', ''refresh-rate''}) = {''prefix'', ''refresh-rate''}"
    by auto
  have gate: "y_n set_to_default_question ?w1 =
                Some (True, snd (input (set_to_default_question @ '' (y/n): '') ?w1))"
    by (rule y_n_yes) (simp add: print_line_def lower_def lower_char_def)
  have "ensure_config_keys ?iter ?config ?w =
          Some (Inr (?config(''prefix'' \<mapsto> default' ?p, ''refresh-rate'' \<mapsto> default' ?r)),
                print_line ''Successfully updated config''
                  (dump (?config(''prefix'' \<mapsto> default' ?p, ''refresh-rate'' \<mapsto> default' ?r))
                     (snd (input (set_to_default_question @ '' (y/n): '') ?w1))))"
    using ensure_config_keys_prefix_refresh_rate [OF p r missing iter gate] by (rule conjunct1)
  then show ?thesis
    by (simp add: print_line_def input_def dump_def)
qed

text \<open>
  Claim C3. With the gate answered yes, every missing key is given the default its
  option declares, which is None for bot-token, server-ip and
  maintenance-mode-detection; after the gate no line is read and no prompt is rendered.
\<close>

theorem ensure_config_keys_defaults:
  fixes M :: "string set" and config :: config
  defines "filled \<equiv> (\<lambda>k. if k \<in> M then map_option default' (get_option k) else config k)"
  assumes missing: "set (map name OPTIONS) - dom config = M" "M \<noteq> {}"
      and iter: "set (iter M) = M"
      and gate: "y_n set_to_default_question
                   (print_line (''There are missing options in your config file: ''
                                @ join '', '' (iter M)) w) = Some (True, w2)"
  shows "\<exists>w'. ensure_config_keys iter config w = Some (Inr filled, w')
         \<and> (\<forall>key\<in>M. \<exists>option. get_option key = Some option \<and> filled key = Some (default' option))
         \<and> (''bot-token'' \<in> M \<longrightarrow> filled ''bot-token'' = Some PNone)
         \<and> (''server-ip'' \<in> M \<longrightarrow> filled ''server-ip'' = Some PNone)
         \<and> (''maintenance-mode-detection'' \<in> M \<longrightarrow>
              filled ''maintenance-mode-detection'' = Some PNone)
         \<and> stdin w' = stdin w2 \<and> prompts w' = prompts w2"
proof -
  let ?w' = "print_line ''Successfully updated config'' (dump filled w2)"
  have run: "ensure_config_keys iter config w = Some (Inr filled, ?w')"
    unfolding filled_def using missing iter gate by (rule ensure_config_keys_set_to_default)
  have each: "\<forall>key\<in>M. \<exists>option. get_option key = Some option \<and> filled key = Some (default' option)"
  proof
    fix key assume k: "key \<in> M"
    with missing have "key \<in> set (map name OPTIONS)" by blast
    from get_option_Some [OF this] obtain option where "get_option key = Some option"
      by blast
    with k show "\<exists>option. get_option key = Some option \<and> filled key = Some (default' option)"
      by (simp add: filled_def)
  qed
  have none: "''bot-token'' \<in> M \<longrightarrow> filled ''bot-token'' = Some PNone"
    "''server-ip'' \<in> M \<longrightarrow> filled ''server-ip'' = Some PNone"
    "''maintenance-mode-detection'' \<in> M \<longrightarrow> filled ''maintenance-mode-detection'' = Some PNone"
    by (simp_all add: filled_def get_option_defaults)
  have io: "stdin ?w' = stdin w2" "prompts ?w' = prompts w2"
    by (simp_all add: print_line_def dump_def)
  show ?thesis
  proof (intro exI conjI)
    show "ensure_config_keys iter config w = Some (Inr filled, ?w')"
      by (fact run)
  qed (fact each none io)+
qed

theorem ensure_config_keys_defaults_witness:
  "(case ensure_config_keys (\<lambda>S. [''bot-token'', ''maintenance-mode-detection'', ''server-ip''])
       [''prefix'' \<mapsto> PStr ''!'', ''server-type'' \<mapsto> PStr ''java'', ''refresh-rate'' \<mapsto> PInt 45]
       \<lparr>stdin = ''maybe'' ## ''yes'' ## sconst ''x'', prompts = [], printed = [], dumped = [],
        config_yml = None, update_deps_calls = 0, max_str_digits = 4300\<rparr> of
      Some (Inr config', w') \<Rightarrow>
        config' ''bot-token'' = Some PNone \<and> config' ''server-ip'' = Some PNone
        \<and> config' ''maintenance-mode-detection'' = Some PNone
        \<and> config' ''prefix'' = Some (PStr ''!'')
        \<and> stdin w' = sconst ''x''
        \<and> prompts w' = [set_to_default_question @ '' (y/n): '', set_to_default_question @ '' (y/n): '']
    | _ \<Rightarrow> False)"
proof -
  let ?config = "[''prefix'' \<mapsto> PStr ''!'', ''server-type'' \<mapsto> PStr ''java'', ''refresh-rate'' \<mapsto> PInt 45]"
  let ?w = "\<lparr>stdin = ''maybe'' ## ''yes'' ## sconst ''x'', prompts = [], printed = [], dumped = [],
        config_yml = None, update_deps_calls = 0, max_str_digits = 4300\<rparr>"
  let ?M = "{''bot-token'', ''maintenance-mode-detection'', ''server-ip''}"
  let ?iter = "\<lambda>S::string set. [''bot-token'', ''maintenance-mode-detection'', ''server-ip'']"
  let ?w1 = "print_line (''There are missing options in your config file: ''
              @ join '', '' (?iter ?M)) ?w"
  let ?q = "set_to_default_question @ '' (y/n): ''"
  have missing: "set (map name OPTIONS) - dom ?config = ?M"
    by (auto simp: all_keys_eq)
  have ne: "?M \<noteq> {}" by simp
  have iter: "set (?iter ?M) = ?M"
    by auto
  have "y_n set_to_default_question ?w1 = y_n set_to_default_question (snd (input ?q ?w1))"
    by (rule y_n_again) (simp add: print_line_def lower_def lower_char_def)
  also have "\<dots> = Some (True, snd (input ?q (snd (input ?q ?w1))))"
    by (rule y_n_yes) (simp add: print_line_def input_def lower_def lower_char_def)
  finally have gate: "y_n set_to_default_question ?w1 = Some (True, snd (input ?q (snd (input ?q ?w1))))" .
  from ensure_config_keys_defaults [OF missing ne iter gate]
  show ?thesis
    by (elim exE conjE) (simp add: print_line_def input_def)
qed


subsection \<open>The prompts of the options\<close>

lemma required_prompt_get_info:
  assumes "self \<in> set OPTIONS" "\<not> optional self"
  shows "\<exists>q. \<forall>w. prompt self w = map_option (\<lambda>(result, w'). (Inr result, w')) (get_info q PNone False w)"
proof -
  from assms have d: "default' self = PNone"
    by (auto simp: OPTIONS_eq)
  from assms have "cls self = BotTokenC \<or> cls self = ServerIPC"
    by (auto simp: OPTIONS_eq)
  then show ?thesis
  proof
    assume "cls self = BotTokenC"
    then show ?thesis
      using assms(2) d by (auto simp: prompt_def BotToken_prompt_def Let_def)
  next
    assume "cls self = ServerIPC"
    then show ?thesis
      using assms(2) d by (auto simp: prompt_def ConfigOption_prompt_def)
  qed
qed

text \<open>
  Claim C5. The options of the registry that are not optional (bot-token and server-ip,
  which have no default) never return an empty value; after any number of empty lines, the
  first non-empty line is returned as it is, with the lines after it left unread; and on
  an input of empty lines only the prompt never returns.
\<close>

theorem required_prompt:
  assumes "self \<in> set OPTIONS" "\<not> optional self"
  shows "(\<forall>r w'. prompt self w = Some (r, w') \<longrightarrow> (\<exists>s. r = Inr (PStr s) \<and> s \<noteq> []))
       \<and> (\<forall>n l rest. stdin w = replicate n [] @- (l ## rest) \<and> l \<noteq> [] \<longrightarrow>
             (\<exists>w'. prompt self w = Some (Inr (PStr l), w') \<and> stdin w' = rest
                  \<and> length (prompts w') = length (prompts w) + Suc n))
       \<and> ((\<forall>k. stdin w !! k = []) \<longrightarrow> prompt self w = None)"
proof -
  from required_prompt_get_info [OF assms] obtain q
    where q: "\<And>w. prompt self w = map_option (\<lambda>(result, w'). (Inr result, w')) (get_info q PNone False w)"
    by blast
  have a: "\<exists>s. r = Inr (PStr s) \<and> s \<noteq> []" if "prompt self w = Some (r, w')" for r w'
  proof -
    from that obtain v where "get_info q PNone False w = Some (v, w')" and r: "r = Inr v"
      by (auto simp: q)
    from get_info_result [OF this(1)] r show ?thesis by auto
  qed
  have b: "\<exists>w'. prompt self w = Some (Inr (PStr l), w') \<and> stdin w' = rest
                  \<and> length (prompts w') = length (prompts w) + Suc n"
    if "stdin w = replicate n [] @- (l ## rest)" "l \<noteq> []" for n l rest
    using get_info_required_skips [OF that, of q PNone] by (simp add: q)
  have c: "prompt self w = None" if "\<forall>k. stdin w !! k = []"
    using get_info_required_blocks [OF that, of q PNone] by (simp add: q)
  from a b c show ?thesis by blast
qed

theorem required_prompt_witness:
  "(\<exists>w'. prompt \<lparr>cls = BotTokenC, name = ''bot-token'', help' = ''Enter the token for the bot'',
              default' = PNone, optional = False\<rparr>
            \<lparr>stdin = [] ## [] ## ''t0k3n'' ## sconst ''x'', prompts = [], printed = [], dumped = [],
             config_yml = None, update_deps_calls = 0, max_str_digits = 4300\<rparr> = Some (Inr (PStr ''t0k3n''), w')
         \<and> stdin w' = sconst ''x'' \<and> length (prompts w') = 3)
   \<and> prompt \<lparr>cls = ServerIPC, name = ''server-ip'',
              help' = ''Enter the Minecraft server ip to display status for'',
              default' = PNone, optional = False\<rparr>
            \<lparr>stdin = sconst [], prompts = [], printed = [], dumped = [],
             config_yml = None, update_deps_calls = 0, max_str_digits = 4300\<rparr> = None"
proof -
  let ?b = "\<lparr>cls = BotTokenC, name = ''bot-token'', help' = ''Enter the token for the bot'',
              default' = PNone, optional = False\<rparr>"
  let ?s = "\<lparr>cls = ServerIPC, name = ''server-ip'',
              help' = ''Enter the Minecraft server ip to display status for'',
              default' = PNone, optional = False\<rparr>"
  let ?w1 = "\<lparr>stdin = [] ## [] ## ''t0k3n'' ## sconst ''x'', prompts = [], printed = [], dumped = [],
             config_yml = None, update_deps_calls = 0, max_str_digits = 4300\<rparr>"
  let ?w2 = "\<lparr>stdin = sconst [], prompts = [], printed = [], dumped = [],
             config_yml = None, update_deps_calls = 0, max_str_digits = 4300\<rparr>"
  have b: "?b \<in> set OPTIONS" "\<not> optional ?b" and s: "?s \<in> set OPTIONS" "\<not> optional ?s"
    by (simp_all add: OPTIONS_eq)
  have in1: "stdin ?w1 = replicate (Suc (Suc 0)) [] @- (''t0k3n'' ## sconst ''x'') \<and> ''t0k3n'' \<noteq> []"
    by simp
  have in2: "\<forall>k. stdin ?w2 !! k = []"
    by simp
  from required_prompt [OF b, of ?w1] in1
  have "\<exists>w'. prompt ?b ?w1 = Some (Inr (PStr ''t0k3n''), w') \<and> stdin w' = sconst ''x''
         \<and> length (prompts w') = length (prompts ?w1) + Suc (Suc (Suc 0))"
    by blast
  moreover from required_prompt [OF s, of ?w2] in2 have "prompt ?s ?w2 = None"
    by blast
  ultimately show ?thesis by (simp add: eval_nat_numeral)
qed


lemma MaintenceModeDetection_eq:
  "MaintenceModeDetection =
     Inr \<lparr>cls = MaintenceModeDetectionC, name = ''maintenance-mode-detection'',
          help' = ''Enter the text to look for in the MOTD'', default' = PNone, optional = True\<rparr>"
  by (simp add: MaintenceModeDetection_def ConfigOption_init_def)

text \<open>
  Claim C6. The prompt of maintenance-mode-detection asks its gate first. When the gate
  is answered no, the prompt returns None in the world the gate left, so nothing more is
  asked. When it is answered yes, empty lines are asked again, the first non-empty line
  is returned as a string (so the line "maintenance" is), an empty value is
  never returned, and on empty lines only the prompt does not return.
\<close>

theorem MaintenceModeDetection_prompt_gate:
  assumes "MaintenceModeDetection = Inr self"
  shows "(\<forall>w1. y_n enable_question w = Some (False, w1) \<longrightarrow> prompt self w = Some (Inr PNone, w1))
       \<and> (\<forall>w1 n l rest.
             y_n enable_question w = Some (True, w1) \<and> stdin w1 = replicate n [] @- (l ## rest)
             \<and> l \<noteq> [] \<longrightarrow>
             prompt self w =
               Some (Inr (PStr l),
                     w1\<lparr>stdin := rest,
                        prompts := prompts w1 @ replicate (Suc n) (help' self @ '': '')\<rparr>))
       \<and> (\<forall>w1 r w'.
             y_n enable_question w = Some (True, w1) \<and> prompt self w = Some (r, w') \<longrightarrow>
             (\<exists>s. r = Inr (PStr s) \<and> s \<noteq> []))
       \<and> (\<forall>w1. y_n enable_question w = Some (True, w1) \<and> (\<forall>k. stdin w1 !! k = []) \<longrightarrow>
             prompt self w = None)"
proof -
  from assms have c: "cls self = MaintenceModeDetectionC"
    by (auto simp: MaintenceModeDetection_eq)
  have p: "prompt self w = MaintenceModeDetection_prompt self w"
    by (simp add: prompt_def c)
  have no: "prompt self w = Some (Inr PNone, w1)" if "y_n enable_question w = Some (False, w1)" for w1
    using that by (simp add: p MaintenceModeDetection_prompt_def)
  have yes: "prompt self w = map_option (\<lambda>(result, w''). (Inr result, w'')) (get_info (help' self) PNone False w1)"
    if "y_n enable_question w = Some (True, w1)" for w1
    using that by (simp add: p MaintenceModeDetection_prompt_def)
  have a: "prompt self w =
             Some (Inr (PStr l), w1\<lparr>stdin := rest, prompts := prompts w1 @ replicate (Suc n) (help' self @ '': '')\<rparr>)"
    if "y_n enable_question w = Some (True, w1)" "stdin w1 = replicate n [] @- (l ## rest)" "l \<noteq> []"
    for w1 n l rest
    using get_info_required_skips [OF that(2,3), of "help' self" PNone] by (simp add: yes [OF that(1)])
  have b: "\<exists>s. r = Inr (PStr s) \<and> s \<noteq> []"
    if g: "y_n enable_question w = Some (True, w1)" and h: "prompt self w = Some (r, w')" for w1 r w'
  proof -
    from h obtain v where "get_info (help' self) PNone False w1 = Some (v, w')" and r: "r = Inr v"
      by (auto simp: yes [OF g])
    from get_info_result [OF this(1)] r show ?thesis by auto
  qed
  have d: "prompt self w = None"
    if "y_n enable_question w = Some (True, w1)" "\<forall>k. stdin w1 !! k = []" for w1
    using get_info_required_blocks [OF that(2), of "help' self" PNone] by (simp add: yes [OF that(1)])
  from no a b d show ?thesis by blast
qed

theorem MaintenceModeDetection_prompt_gate_witness:
  "prompt \<lparr>cls = MaintenceModeDetectionC, name = ''maintenance-mode-detection'',
          help' = ''Enter the text to look for in the MOTD'', default' = PNone, optional = True\<rparr>
     \<lparr>stdin = ''N'' ## sconst ''x'', prompts = [], printed = [], dumped = [],
      config_yml = None, update_deps_calls = 0, max_str_digits = 4300\<rparr>
   = Some (Inr PNone,
       \<lparr>stdin = sconst ''x'', prompts = [enable_question @ '' (y/n): ''], printed = [], dumped = [],
        config_yml = None, update_deps_calls = 0, max_str_digits = 4300\<rparr>)
   \<and> prompt \<lparr>cls = MaintenceModeDetectionC, name = ''maintenance-mode-detection'',
          help' = ''Enter the text to look for in the MOTD'', default' = PNone, optional = True\<rparr>
     \<lparr>stdin = ''yes'' ## [] ## ''maintenance'' ## sconst ''x'', prompts = [], printed = [], dumped = [],
      config_yml = None, update_deps_calls = 0, max_str_digits = 4300\<rparr>
   = Some (Inr (PStr ''maintenance''),
       \<lparr>stdin = sconst ''x'',
        prompts = [enable_question @ '' (y/n): '', ''Enter the text to look for in the MOTD: '',
                   ''Enter the text to look for in the MOTD: ''],
        printed = [], dumped = [], config_yml = None, update_deps_calls = 0, max_str_digits = 4300\<rparr>)"
proof -
  let ?self = "\<lparr>cls = MaintenceModeDetectionC, name = ''maintenance-mode-detection'',
          help' = ''Enter the text to look for in the MOTD'', default' = PNone, optional = True\<rparr>"
  let ?wn = "\<lparr>stdin = ''N'' ## sconst ''x'', prompts = [], printed = [], dumped = [],
      config_yml = None, update_deps_calls = 0, max_str_digits = 4300\<rparr>"
  let ?wy = "\<lparr>stdin = ''yes'' ## [] ## ''maintenance'' ## sconst ''x'', prompts = [], printed = [], dumped = [],
      config_yml = None, update_deps_calls = 0, max_str_digits = 4300\<rparr>"
  let ?q = "enable_question @ '' (y/n): ''"
  have n: "y_n enable_question ?wn = Some (False, snd (input ?q ?wn))"
    by (rule y_n_no) (simp add: lower_def lower_char_def)
  have y: "y_n enable_question ?wy = Some (True, snd (input ?q ?wy))"
    by (rule y_n_yes) (simp add: lower_def lower_char_def)
  have l: "stdin (snd (input ?q ?wy)) = replicate (Suc 0) [] @- (''maintenance'' ## sconst ''x'')"
    "''maintenance'' \<noteq> []"
    by (simp_all add: input_def)
  from MaintenceModeDetection_prompt_gate [OF MaintenceModeDetection_eq, of ?wn] n
  have "prompt ?self ?wn = Some (Inr PNone, snd (input ?q ?wn))"
    by blast
  moreover from MaintenceModeDetection_prompt_gate [OF MaintenceModeDetection_eq, of ?wy] y l
  have "prompt ?self ?wy =
          Some (Inr (PStr ''maintenance''),
                (snd (input ?q ?wy))\<lparr>stdin := sconst ''x'',
                   prompts := prompts (snd (input ?q ?wy)) @ replicate (Suc (Suc 0)) (help' ?self @ '': '')\<rparr>)"
    by blast
  ultimately show ?thesis
    by (simp add: input_def)
qed


subsection \<open>The rendered prompt\<close>

text \<open>
  The calls of \<^verbatim>\<open>get_info\<close> in setup.py pass either the default and the optionality of a
  registry option other than maintenance-mode-detection (lines 72, 85, 104 and 135: the
  prompts of the base class, of BotToken, of ServerType and of RefreshRate), or no default
  with \<^verbatim>\<open>optional=False\<close> (lines 170 and 235). In every such call the option is optional
  with a truthy default, or it is not optional and has no default.
\<close>

lemma get_info_calls:
  assumes "self \<in> set OPTIONS" "cls self \<noteq> MaintenceModeDetectionC"
  shows "optional self \<and> truthy (default' self) \<or> \<not> optional self \<and> default' self = PNone"
  using assms by (auto simp: OPTIONS_eq)

lemma default_text_call:
  assumes "opt \<and> truthy d \<or> \<not> opt \<and> d = PNone"
  shows "question @ default_text d opt @ '': '' =
           (if d \<noteq> PNone then question @ '' ['' @ py_str d @ '']: '' else question @ '': '')"
  using assms by (auto simp: default_text_def)

text \<open>
  Claim C7. In every call of \<^verbatim>\<open>get_info\<close> that setup.py makes, each round of the loop
  renders "<prompt_text> [<default>]: " when a default exists and "<prompt_text>: ",
  without a bracketed part, when none exists, whether or not the call returns; when it
  returns, these lines are all it has added to the rendered prompts.
\<close>

theorem get_info_prompt_line:
  assumes "opt \<and> truthy d \<or> \<not> opt \<and> d = PNone"
  shows "get_info question d opt w =
           (case input (if d \<noteq> PNone then question @ '' ['' @ py_str d @ '']: ''
                        else question @ '': '') w of
              (result, w') \<Rightarrow>
                if result = [] \<and> opt then Some (d, w')
                else if \<not> opt \<and> result = [] then get_info question d opt w'
                else Some (PStr result, w'))
       \<and> (\<forall>r w'. get_info question d opt w = Some (r, w') \<longrightarrow>
            (\<exists>n. prompts w' =
                   prompts w @ replicate (Suc n)
                     (if d \<noteq> PNone then question @ '' ['' @ py_str d @ '']: ''
                      else question @ '': '')))"
proof -
  note line = default_text_call [OF assms, of question]
  have round: "get_info question d opt w =
           (case input (if d \<noteq> PNone then question @ '' ['' @ py_str d @ '']: ''
                        else question @ '': '') w of
              (result, w') \<Rightarrow>
                if result = [] \<and> opt then Some (d, w')
                else if \<not> opt \<and> result = [] then get_info question d opt w'
                else Some (PStr result, w'))"
    by (subst get_info.simps) (simp only: line)
  have log: "\<exists>n. prompts w' =
                   prompts w @ replicate (Suc n)
                     (if d \<noteq> PNone then question @ '' ['' @ py_str d @ '']: ''
                      else question @ '': '')"
    if "get_info question d opt w = Some (r, w')" for r w'
    using get_info_prompts [OF that] by (simp only: line)
  from round log show ?thesis by blast
qed

theorem get_info_prompt_line_witness:
  "get_info ''Enter the amount of seconds to wait in between status refreshes'' (PInt 60) True
     \<lparr>stdin = ''45'' ## sconst [], prompts = [], printed = [], dumped = [], config_yml = None,
      update_deps_calls = 0, max_str_digits = 4300\<rparr>
   = Some (PStr ''45'',
       \<lparr>stdin = sconst [],
        prompts = [''Enter the amount of seconds to wait in between status refreshes [60]: ''],
        printed = [], dumped = [], config_yml = None, update_deps_calls = 0,
        max_str_digits = 4300\<rparr>)
   \<and> get_info ''Enter the text to look for in the MOTD'' PNone False
     \<lparr>stdin = ''maintenance'' ## sconst [], prompts = [], printed = [], dumped = [],
      config_yml = None, update_deps_calls = 0, max_str_digits = 4300\<rparr>
   = Some (PStr ''maintenance'',
       \<lparr>stdin = sconst [], prompts = [''Enter the text to look for in the MOTD: ''],
        printed = [], dumped = [], config_yml = None, update_deps_calls = 0,
        max_str_digits = 4300\<rparr>)"
proof -
  have a: "True \<and> truthy (PInt 60) \<or> \<not> True \<and> PInt 60 = PNone"
    by simp
  have b: "False \<and> truthy PNone \<or> \<not> False \<and> PNone = PNone"
    by simp
  show ?thesis
    using get_info_prompt_line [OF a, THEN conjunct1,
            of "''Enter the amount of seconds to wait in between status refreshes''"
               "\<lparr>stdin = ''45'' ## sconst [], prompts = [], printed = [], dumped = [],
                 config_yml = None, update_deps_calls = 0, max_str_digits = 4300\<rparr>"]
          get_info_prompt_line [OF b, THEN conjunct1,
            of "''Enter the text to look for in the MOTD''"
               "\<lparr>stdin = ''maintenance'' ## sconst [], prompts = [], printed = [], dumped = [],
                 config_yml = None, update_deps_calls = 0, max_str_digits = 4300\<rparr>"]
    by (simp add: input_def str_int_def digit_char_def)
qed

subsection \<open>The enumerated choice\<close>

lemma ServerType_eq:
  "ServerType =
     Inr \<lparr>cls = ServerTypeC, name = ''server-type'',
          help' = ''Enter the type of Minecraft server (Java or Bedrock)'',
          default' = PStr ''java'', optional = True\<rparr>"
  by (simp add: ServerType_def ConfigOption_init_def)

lemma lower_java_bedrock: "lower ''java'' = ''java''" "lower ''bedrock'' = ''bedrock''"
  by (simp_all add: lower_def lower_char_def)

lemma ServerType_prompt_result:
  assumes "ServerType_prompt self w = Some (r, w')"
      and "default' self = PStr ''java''"
  shows "r = Inr (PStr ''java'') \<or> r = Inr (PStr ''bedrock'')"
proof -
  have "default' self = PStr ''java'' \<longrightarrow>
          fst y = Inr (PStr ''java'') \<or> fst y = Inr (PStr ''bedrock'')"
    if "ServerType_prompt self w = Some y" for y
    using that
  proof (induction rule: ServerType_prompt.raw_induct [rotated 1, consumes 1])
    case (1 ServerType_prompt' self w y)
    show ?case
    proof
      assume d: "default' self = PStr ''java''"
      from 1(2) obtain result w1
        where g: "get_info (help' self) (default' self) (optional self) w = Some (result, w1)"
          and k: "(case py_lower result of
                     Inl e \<Rightarrow> Some (Inl e, w1)
                   | Inr result \<Rightarrow>
                       if result \<in> set [''java'', ''bedrock''] then Some (Inr (PStr result), w1)
                       else ServerType_prompt' self
                              (print_line ''Please enter either Java or Bedrock.'' w1)) = Some y"
        by (auto simp: bind_eq_Some_conv)
      from get_info_result [OF g] d obtain s where s: "result = PStr s"
        by auto
      show "fst y = Inr (PStr ''java'') \<or> fst y = Inr (PStr ''bedrock'')"
      proof (cases "lower s \<in> set [''java'', ''bedrock'']")
        case True
        with k s show ?thesis by auto
      next
        case False
        with k s have "ServerType_prompt' self (print_line ''Please enter either Java or Bedrock.'' w1) = Some y"
          by simp
        from 1(1) [OF this] d show ?thesis by simp
      qed
    qed
  qed
  from this [OF assms(1)] assms(2) show ?thesis by simp
qed

text \<open>
  The value a ServerType prompt returns has passed the membership test, whatever the
  default of the object is.
\<close>

lemma ServerType_prompt_value:
  assumes "ServerType_prompt self w = Some (Inr v, w')"
  shows "v = PStr ''java'' \<or> v = PStr ''bedrock''"
proof -
  have "\<forall>v. fst y = Inr v \<longrightarrow> v = PStr ''java'' \<or> v = PStr ''bedrock''"
    if "ServerType_prompt self w = Some y" for y
    using that
  proof (induction rule: ServerType_prompt.raw_induct [rotated 1, consumes 1])
    case (1 ServerType_prompt' self w y)
    from 1(2) obtain result w1
      where k: "(case py_lower result of
                   Inl e \<Rightarrow> Some (Inl e, w1)
                 | Inr result \<Rightarrow>
                     if result \<in> set [''java'', ''bedrock''] then Some (Inr (PStr result), w1)
                     else ServerType_prompt' self
                            (print_line ''Please enter either Java or Bedrock.'' w1)) = Some y"
      by (auto simp: bind_eq_Some_conv)
    show ?case
    proof (cases "py_lower result")
      case (Inl e)
      with k show ?thesis by auto
    next
      case (Inr s)
      show ?thesis
      proof (cases "s \<in> set [''java'', ''bedrock'']")
        case True
        with k Inr show ?thesis by auto
      next
        case False
        with k Inr
        have "ServerType_prompt' self (print_line ''Please enter either Java or Bedrock.'' w1) = Some y"
          by simp
        then show ?thesis by (rule 1(1))
      qed
    qed
  qed
  from this [OF assms] show ?thesis by simp
qed

text \<open>The round of the loop that reads an empty line: the default is the value tested.\<close>

lemma ServerType_prompt_default:
  assumes "optional self" "default' self = PStr d" "shd (stdin w) = []"
  shows "ServerType_prompt self w =
           (if lower d \<in> {''java'', ''bedrock''}
            then Some (Inr (PStr (lower d)),
                       snd (input (help' self @ default_text (PStr d) True @ '': '') w))
            else ServerType_prompt self
                   (print_line ''Please enter either Java or Bedrock.''
                      (snd (input (help' self @ default_text (PStr d) True @ '': '') w))))"
  by (subst ServerType_prompt.simps) (simp add: assms get_info_optional)

text \<open>
  Claim C10. Whenever the prompt of a ServerType object returns a value, the value is
  the string "java" or "bedrock", which lowercasing leaves as it is. An empty first line
  takes the default of the object, and the default goes through the lowercasing and the
  membership test like a typed line: a default that lowercases to one of the two words
  is returned lowercased, and any other default is answered with the corrective message
  and a new round. For the server-type option of the registry, whose default is "java",
  the prompt never raises and an empty first line returns "java" after one rendered
  prompt.
\<close>

theorem ServerType_prompt_java_or_bedrock:
  assumes "cls self = ServerTypeC"
  shows "(\<forall>v w'. prompt self w = Some (Inr v, w') \<longrightarrow>
            (\<exists>s. v = PStr s \<and> (s = ''java'' \<or> s = ''bedrock'') \<and> lower s = s))
       \<and> (\<forall>d. optional self \<and> default' self = PStr d \<and> shd (stdin w) = [] \<longrightarrow>
            prompt self w =
              (if lower d \<in> {''java'', ''bedrock''}
               then Some (Inr (PStr (lower d)),
                          snd (input (help' self @ default_text (PStr d) True @ '': '') w))
               else prompt self
                      (print_line ''Please enter either Java or Bedrock.''
                         (snd (input (help' self @ default_text (PStr d) True @ '': '') w)))))
       \<and> (ServerType = Inr self \<longrightarrow>
            (\<forall>r w'. prompt self w = Some (r, w') \<longrightarrow>
               (\<exists>s. r = Inr (PStr s) \<and> (s = ''java'' \<or> s = ''bedrock'') \<and> lower s = s))
          \<and> (shd (stdin w) = [] \<longrightarrow>
               prompt self w =
                 Some (Inr (PStr ''java''), snd (input (help' self @ '' [java]: '') w))))"
proof -
  have p: "prompt self w = ServerType_prompt self w" for w
    by (simp add: prompt_def assms)
  have a: "\<exists>s. v = PStr s \<and> (s = ''java'' \<or> s = ''bedrock'') \<and> lower s = s"
    if "prompt self w = Some (Inr v, w')" for v w'
    using ServerType_prompt_value [OF that [unfolded p]] lower_java_bedrock by auto
  have b: "prompt self w =
              (if lower d \<in> {''java'', ''bedrock''}
               then Some (Inr (PStr (lower d)),
                          snd (input (help' self @ default_text (PStr d) True @ '': '') w))
               else prompt self
                      (print_line ''Please enter either Java or Bedrock.''
                         (snd (input (help' self @ default_text (PStr d) True @ '': '') w))))"
    if "optional self" "default' self = PStr d" "shd (stdin w) = []" for d
    unfolding p by (rule ServerType_prompt_default [OF that])
  have c: "\<exists>s. r = Inr (PStr s) \<and> (s = ''java'' \<or> s = ''bedrock'') \<and> lower s = s"
    if "ServerType = Inr self" "prompt self w = Some (r, w')" for r w'
  proof -
    from that(1) have "default' self = PStr ''java''"
      by (auto simp: ServerType_eq)
    from ServerType_prompt_result [OF that(2) [unfolded p] this] lower_java_bedrock
    show ?thesis by auto
  qed
  have e: "prompt self w = Some (Inr (PStr ''java''), snd (input (help' self @ '' [java]: '') w))"
    if "ServerType = Inr self" "shd (stdin w) = []"
  proof -
    from that(1) have self: "optional self" "default' self = PStr ''java''"
      by (auto simp: ServerType_eq)
    from b [OF self that(2)] show ?thesis
      by (simp add: lower_java_bedrock default_text_def)
  qed
  from a b c e show ?thesis by blast
qed

theorem ServerType_prompt_java_or_bedrock_witness:
  "prompt \<lparr>cls = ServerTypeC, name = ''server-type'',
          help' = ''Enter the type of Minecraft server (Java or Bedrock)'',
          default' = PStr ''java'', optional = True\<rparr>
     \<lparr>stdin = [] ## sconst ''x'', prompts = [], printed = [], dumped = [],
      config_yml = None, update_deps_calls = 0, max_str_digits = 4300\<rparr>
   = Some (Inr (PStr ''java''),
       \<lparr>stdin = sconst ''x'',
        prompts = [''Enter the type of Minecraft server (Java or Bedrock) [java]: ''],
        printed = [], dumped = [], config_yml = None, update_deps_calls = 0,
        max_str_digits = 4300\<rparr>)
   \<and> prompt \<lparr>cls = ServerTypeC, name = ''server-type'', help' = ''Type'',
          default' = PStr ''Java'', optional = True\<rparr>
     \<lparr>stdin = [] ## sconst ''x'', prompts = [], printed = [], dumped = [],
      config_yml = None, update_deps_calls = 0, max_str_digits = 4300\<rparr>
   = Some (Inr (PStr ''java''),
       \<lparr>stdin = sconst ''x'', prompts = [''Type [Java]: ''],
        printed = [], dumped = [], config_yml = None, update_deps_calls = 0,
        max_str_digits = 4300\<rparr>)
   \<and> prompt \<lparr>cls = ServerTypeC, name = ''server-type'',
          help' = ''Enter the type of Minecraft server (Java or Bedrock)'',
          default' = PStr ''java'', optional = True\<rparr>
     \<lparr>stdin = ''pocketedition'' ## ''BedRock'' ## sconst ''x'', prompts = [], printed = [],
      dumped = [], config_yml = None, update_deps_calls = 0, max_str_digits = 4300\<rparr>
   = Some (Inr (PStr ''bedrock''),
       \<lparr>stdin = sconst ''x'',
        prompts = [''Enter the type of Minecraft server (Java or Bedrock) [java]: '',
                   ''Enter the type of Minecraft server (Java or Bedrock) [java]: ''],
        printed = [''Please enter either Java or Bedrock.''], dumped = [], config_yml = None,
        update_deps_calls = 0, max_str_digits = 4300\<rparr>)
   \<and> (\<exists>s. PStr ''bedrock'' = PStr s \<and> (s = ''java'' \<or> s = ''bedrock'') \<and> lower s = s)"
proof -
  let ?self = "\<lparr>cls = ServerTypeC, name = ''server-type'',
          help' = ''Enter the type of Minecraft server (Java or Bedrock)'',
          default' = PStr ''java'', optional = True\<rparr>"
  let ?other = "\<lparr>cls = ServerTypeC, name = ''server-type'', help' = ''Type'',
          default' = PStr ''Java'', optional = True\<rparr>"
  let ?w1 = "\<lparr>stdin = [] ## sconst ''x'', prompts = [], printed = [], dumped = [],
      config_yml = None, update_deps_calls = 0, max_str_digits = 4300\<rparr>"
  let ?w2 = "\<lparr>stdin = ''pocketedition'' ## ''BedRock'' ## sconst ''x'', prompts = [], printed = [],
      dumped = [], config_yml = None, update_deps_calls = 0, max_str_digits = 4300\<rparr>"
  let ?w2' = "\<lparr>stdin = sconst ''x'',
        prompts = [''Enter the type of Minecraft server (Java or Bedrock) [java]: '',
                   ''Enter the type of Minecraft server (Java or Bedrock) [java]: ''],
        printed = [''Please enter either Java or Bedrock.''], dumped = [], config_yml = None,
        update_deps_calls = 0, max_str_digits = 4300\<rparr>"
  have cls: "cls ?self = ServerTypeC" "cls ?other = ServerTypeC"
    by simp_all
  have run: "prompt ?self ?w2 = Some (Inr (PStr ''bedrock''), ?w2')"
    unfolding prompt_def
    apply simp
    apply (subst ServerType_prompt.simps)
    apply (simp add: get_info_optional default_text_def input_def lower_def lower_char_def print_line_def)
    apply (subst ServerType_prompt.simps)
    apply (simp add: get_info_optional default_text_def input_def lower_def lower_char_def print_line_def)
    done
  from ServerType_prompt_java_or_bedrock [OF cls(1), of ?w2, THEN conjunct1] run
  have 1: "\<exists>s. PStr ''bedrock'' = PStr s \<and> (s = ''java'' \<or> s = ''bedrock'') \<and> lower s = s"
    by blast
  from ServerType_prompt_java_or_bedrock [OF cls(1), of ?w1, THEN conjunct2, THEN conjunct2]
  have 2: "prompt ?self ?w1 = Some (Inr (PStr ''java''), snd (input (help' ?self @ '' [java]: '') ?w1))"
    by (simp add: ServerType_eq)
  from ServerType_prompt_java_or_bedrock [OF cls(2), of ?w1, THEN conjunct2, THEN conjunct1]
  have 3: "prompt ?other ?w1 =
             Some (Inr (PStr ''java''),
                   snd (input (help' ?other @ default_text (PStr ''Java'') True @ '': '') ?w1))"
    by (simp add: lower_def lower_char_def)
  from 1 2 3 run show ?thesis
    by (simp add: input_def default_text_def)
qed

subsection \<open>The bounded integer\<close>

lemma RefreshRate_eq:
  "RefreshRate =
     Inr \<lparr>cls = RefreshRateC, name = ''refresh-rate'',
          help' = ''Enter the amount of seconds to wait in between status refreshes'',
          default' = PInt 60, optional = True\<rparr>"
  by (simp add: RefreshRate_def ConfigOption_init_def)

lemma default_text_60: "default_text (PInt 60) True = '' [60]''"
  by (simp add: default_text_def str_int_def digit_char_def)

lemma max_str_digits_input [simp]: "max_str_digits (snd (input p w)) = max_str_digits w"
  by (simp add: input_def)

lemma max_str_digits_print_line [simp]: "max_str_digits (print_line l w) = max_str_digits w"
  by (simp add: print_line_def)

lemma int_of_str_examples:
  "int_of_str m ''10'' = Some 10" "int_of_str m ''abc'' = None" "int_of_str m ''30'' = Some 30"
  "int_of_str m ''45'' = Some 45" "int_of_str m [] = None"
  "int_of_str m '' 1_000 '' = Some 1000" "int_of_str m (CHR 0x1C # ''30'') = None"
  by (simp_all add: int_of_str_def strip_def is_space_def scan_number_def digit_val_def
        too_many_digits_def)

lemma scan_number_too_many_digits: "too_many_digits m s \<Longrightarrow> scan_number m s = None"
  by (auto simp: scan_number_def split: list.splits option.splits)

text \<open>One round of the loop of \<^verbatim>\<open>RefreshRate.prompt\<close>, by the line that is read.\<close>

lemma RefreshRate_prompt_round:
  assumes "default' self = PInt 60" "optional self"
  shows "RefreshRate_prompt self w =
           (let l = shd (stdin w); w1 = snd (input (help' self @ '' [60]: '') w)
            in if l = [] then Some (Inr (PInt 60), w1)
               else case int_of_str (max_str_digits w) l of
                      None \<Rightarrow> RefreshRate_prompt self w1
                    | Some i \<Rightarrow>
                        if 30 \<le> i then Some (Inr (PInt i), w1)
                        else RefreshRate_prompt self (print_line seconds_message w1))"
  by (subst RefreshRate_prompt.simps)
     (simp add: assms get_info_optional default_text_60 Let_def split: option.splits)

lemma RefreshRate_prompt_returns:
  assumes "RefreshRate_prompt self w = Some (r, w')"
      and "default' self = PInt 60" "optional self"
  shows "\<exists>n. (\<forall>k<n. stdin w !! k \<noteq> []
                  \<and> (\<forall>i. int_of_str (max_str_digits w) (stdin w !! k) = Some i \<longrightarrow> i < 30))
           \<and> (stdin w !! n = [] \<and> r = Inr (PInt 60)
              \<or> (\<exists>i. int_of_str (max_str_digits w) (stdin w !! n) = Some i \<and> 30 \<le> i
                     \<and> r = Inr (PInt i)))
           \<and> stdin w' = sdrop (Suc n) (stdin w)"
proof -
  define rej where "rej m l \<longleftrightarrow> l \<noteq> [] \<and> (\<forall>i. int_of_str m l = Some i \<longrightarrow> i < 30)"
    for m l
  define acc where "acc m l v \<longleftrightarrow> l = [] \<and> v = Inr (PInt 60)
      \<or> (\<exists>i. int_of_str m l = Some i \<and> 30 \<le> i \<and> v = Inr (PInt i))"
    for m l and v :: "error + pyval"
  have "default' self = PInt 60 \<and> optional self \<longrightarrow>
          (\<exists>n. (\<forall>k<n. rej (max_str_digits w) (stdin w !! k))
              \<and> acc (max_str_digits w) (stdin w !! n) (fst y)
              \<and> stdin (snd y) = sdrop (Suc n) (stdin w))"
    if "RefreshRate_prompt self w = Some y" for y
    using that
  proof (induction rule: RefreshRate_prompt.raw_induct [rotated 1, consumes 1])
    case (1 RefreshRate_prompt' self w y)
    let ?l = "shd (stdin w)"
    let ?m = "max_str_digits w"
    let ?w1 = "snd (input (help' self @ '' [60]: '') w)"
    show ?case
    proof
      assume self: "default' self = PInt 60 \<and> optional self"
      have later: "\<exists>n. (\<forall>k<n. rej ?m (stdin w !! k)) \<and> acc ?m (stdin w !! n) (fst y)
              \<and> stdin (snd y) = sdrop (Suc n) (stdin w)"
        if r: "rej ?m ?l" and c: "RefreshRate_prompt' self w2 = Some y"
          and s: "stdin w2 = stl (stdin w)" and m: "max_str_digits w2 = ?m"
        for w2
      proof -
        from 1(1) [OF c] self s m obtain n
          where n: "\<forall>k<n. rej ?m (stl (stdin w) !! k)" "acc ?m (stl (stdin w) !! n) (fst y)"
            "stdin (snd y) = sdrop (Suc n) (stl (stdin w))"
          by auto
        have "\<forall>k<Suc n. rej ?m (stdin w !! k)"
        proof (intro allI impI)
          fix k assume "k < Suc n"
          then show "rej ?m (stdin w !! k)"
            using r n(1) by (cases k) auto
        qed
        moreover have "acc ?m (stdin w !! Suc n) (fst y)"
          using n(2) by simp
        moreover have "stdin (snd y) = sdrop (Suc (Suc n)) (stdin w)"
          using n(3) by simp
        ultimately show ?thesis by blast
      qed
      have now: "\<exists>n. (\<forall>k<n. rej ?m (stdin w !! k)) \<and> acc ?m (stdin w !! n) (fst y)
              \<and> stdin (snd y) = sdrop (Suc n) (stdin w)"
        if "acc ?m ?l (fst y)" "snd y = ?w1"
      proof -
        have "(\<forall>k<0. rej ?m (stdin w !! k)) \<and> acc ?m (stdin w !! 0) (fst y)
              \<and> stdin (snd y) = sdrop (Suc 0) (stdin w)"
          using that by (simp add: input_def)
        then show ?thesis by blast
      qed
      from 1(2) self have body:
        "(if ?l = [] then Some (Inr (PInt 60), ?w1)
          else case int_of_str ?m ?l of
                 None \<Rightarrow> RefreshRate_prompt' self ?w1
               | Some i \<Rightarrow>
                   if 30 \<le> i then Some (Inr (PInt i), ?w1)
                   else RefreshRate_prompt' self (print_line seconds_message ?w1)) = Some y"
        by (cases "shd (stdin w) = []"; cases "int_of_str (max_str_digits w) (shd (stdin w))")
           (simp_all add: get_info_optional default_text_60)
      show "\<exists>n. (\<forall>k<n. rej ?m (stdin w !! k)) \<and> acc ?m (stdin w !! n) (fst y)
              \<and> stdin (snd y) = sdrop (Suc n) (stdin w)"
      proof (cases "?l = []")
        case True
        with body have "y = (Inr (PInt 60), ?w1)" by simp
        with True show ?thesis by (intro now) (simp_all add: acc_def)
      next
        case False
        show ?thesis
        proof (cases "int_of_str ?m ?l")
          case None
          with False body have "RefreshRate_prompt' self ?w1 = Some y" by simp
          moreover from False None have "rej ?m ?l" by (simp add: rej_def)
          ultimately show ?thesis by (intro later [of ?w1]) (simp_all add: input_def)
        next
          case (Some i)
          show ?thesis
          proof (cases "30 \<le> i")
            case True
            with False Some body have "y = (Inr (PInt i), ?w1)" by simp
            with True Some show ?thesis by (intro now) (simp_all add: acc_def)
          next
            case lt: False
            with False Some body
            have "RefreshRate_prompt' self (print_line seconds_message ?w1) = Some y" by simp
            moreover from False Some lt have "rej ?m ?l" by (simp add: rej_def)
            ultimately show ?thesis
              by (intro later [of "print_line seconds_message ?w1"])
                 (simp_all add: input_def print_line_def)
          qed
        qed
      qed
    qed
  qed
  from this [OF assms(1)] assms(2,3) show ?thesis
    by (simp add: rej_def acc_def)
qed

text \<open>The loop does return when a line it accepts comes after lines it rejects.\<close>

lemma RefreshRate_prompt_accepts:
  assumes "default' self = PInt 60" "optional self"
      and "\<forall>k<n. stdin w !! k \<noteq> []
                 \<and> (\<forall>i. int_of_str (max_str_digits w) (stdin w !! k) = Some i \<longrightarrow> i < 30)"
      and "stdin w !! n = [] \<or> (\<exists>i. int_of_str (max_str_digits w) (stdin w !! n) = Some i \<and> 30 \<le> i)"
  shows "\<exists>r w'. RefreshRate_prompt self w = Some (r, w')"
  using assms(3,4)
proof (induction n arbitrary: w)
  case 0
  then show ?case
    by (subst RefreshRate_prompt_round [OF assms(1,2)]) (auto simp: Let_def)
next
  case (Suc n)
  let ?m = "max_str_digits w"
  let ?w1 = "snd (input (help' self @ '' [60]: '') w)"
  from Suc.prems(1) have rej: "shd (stdin w) \<noteq> []"
    "\<forall>i. int_of_str ?m (shd (stdin w)) = Some i \<longrightarrow> i < 30"
    by (auto dest: spec [of _ 0])
  have rest: "\<forall>k<n. stl (stdin w) !! k \<noteq> []
                \<and> (\<forall>i. int_of_str ?m (stl (stdin w) !! k) = Some i \<longrightarrow> i < 30)"
    using Suc.prems(1) by (auto dest: spec [of _ "Suc k" for k])
  have last: "stl (stdin w) !! n = []
                \<or> (\<exists>i. int_of_str ?m (stl (stdin w) !! n) = Some i \<and> 30 \<le> i)"
    using Suc.prems(2) by simp
  have a: "\<exists>r w'. RefreshRate_prompt self ?w1 = Some (r, w')"
    by (rule Suc.IH) (simp_all add: input_def rest last)
  have b: "\<exists>r w'. RefreshRate_prompt self (print_line seconds_message ?w1) = Some (r, w')"
    by (rule Suc.IH) (simp_all add: input_def print_line_def rest last)
  show ?case
  proof (cases "int_of_str ?m (shd (stdin w))")
    case None
    with rej a show ?thesis
      by (subst RefreshRate_prompt_round [OF assms(1,2)]) (simp add: Let_def)
  next
    case (Some i)
    with rej have "\<not> 30 \<le> i" by auto
    with Some rej b show ?thesis
      by (subst RefreshRate_prompt_round [OF assms(1,2)]) (simp add: Let_def)
  qed
qed

text \<open>
  Claim C4 says that the loop returns only once the entered line coerces to an integer
  that is at least 30. An empty line does not coerce to an integer, and the loop returns
  on it: \<^verbatim>\<open>get_info\<close> hands back the default 60, which passes both checks.
\<close>

theorem RefreshRate_prompt_bound_counterexample:
  "prompt \<lparr>cls = RefreshRateC, name = ''refresh-rate'',
          help' = ''Enter the amount of seconds to wait in between status refreshes'',
          default' = PInt 60, optional = True\<rparr>
     \<lparr>stdin = [] ## sconst ''x'', prompts = [], printed = [], dumped = [],
      config_yml = None, update_deps_calls = 0, max_str_digits = 4300\<rparr>
   = Some (Inr (PInt 60),
       \<lparr>stdin = sconst ''x'',
        prompts = [''Enter the amount of seconds to wait in between status refreshes [60]: ''],
        printed = [], dumped = [], config_yml = None, update_deps_calls = 0,
        max_str_digits = 4300\<rparr>)
   \<and> int_of_str 4300 [] = None"
  by (simp add: prompt_def RefreshRate_prompt_round Let_def input_def int_of_str_examples)

text \<open>
  Claim C4, as the code has it. The prompt of refresh-rate asks again on "10" (after
  printing the message about the bound) and on "abc", and returns the integer 30 on "30"
  and 45 on "45". Whenever it returns, every line read before the last one was non-empty
  and either no integer or an integer below 30, and the last line read is either empty,
  with the default 60 returned, or an integer of at least 30, which is returned.
\<close>

theorem RefreshRate_prompt_bound:
  assumes "RefreshRate = Inr self"
  shows "(shd (stdin w) = ''10'' \<longrightarrow>
            prompt self w =
              prompt self (print_line seconds_message (snd (input (help' self @ '' [60]: '') w))))
       \<and> (shd (stdin w) = ''abc'' \<longrightarrow>
            prompt self w = prompt self (snd (input (help' self @ '' [60]: '') w)))
       \<and> (shd (stdin w) = ''30'' \<longrightarrow>
            prompt self w = Some (Inr (PInt 30), snd (input (help' self @ '' [60]: '') w)))
       \<and> (shd (stdin w) = ''45'' \<longrightarrow>
            prompt self w = Some (Inr (PInt 45), snd (input (help' self @ '' [60]: '') w)))
       \<and> (\<forall>r w'. prompt self w = Some (r, w') \<longrightarrow>
            (\<exists>n. (\<forall>k<n. stdin w !! k \<noteq> []
                          \<and> (\<forall>i. int_of_str (max_str_digits w) (stdin w !! k) = Some i
                                 \<longrightarrow> i < 30))
                \<and> (stdin w !! n = [] \<and> r = Inr (PInt 60)
                   \<or> (\<exists>i. int_of_str (max_str_digits w) (stdin w !! n) = Some i \<and> 30 \<le> i
                          \<and> r = Inr (PInt i)))
                \<and> stdin w' = sdrop (Suc n) (stdin w)))"
proof -
  from assms have self: "cls self = RefreshRateC" and d: "default' self = PInt 60" and o: "optional self"
    by (auto simp: RefreshRate_eq)
  have p: "prompt self w = RefreshRate_prompt self w" for w
    by (simp add: prompt_def self)
  note round = RefreshRate_prompt_round [OF d o, of w]
  have a: "prompt self w =
              prompt self (print_line seconds_message (snd (input (help' self @ '' [60]: '') w)))"
    if "shd (stdin w) = ''10''"
    unfolding p by (subst round) (simp add: that int_of_str_examples Let_def)
  have b: "prompt self w = prompt self (snd (input (help' self @ '' [60]: '') w))"
    if "shd (stdin w) = ''abc''"
    unfolding p by (subst round) (simp add: that int_of_str_examples Let_def)
  have c: "prompt self w = Some (Inr (PInt 30), snd (input (help' self @ '' [60]: '') w))"
    if "shd (stdin w) = ''30''"
    unfolding p by (subst round) (simp add: that int_of_str_examples Let_def)
  have e: "prompt self w = Some (Inr (PInt 45), snd (input (help' self @ '' [60]: '') w))"
    if "shd (stdin w) = ''45''"
    unfolding p by (subst round) (simp add: that int_of_str_examples Let_def)
  have f: "\<exists>n. (\<forall>k<n. stdin w !! k \<noteq> []
                          \<and> (\<forall>i. int_of_str (max_str_digits w) (stdin w !! k) = Some i
                                 \<longrightarrow> i < 30))
                \<and> (stdin w !! n = [] \<and> r = Inr (PInt 60)
                   \<or> (\<exists>i. int_of_str (max_str_digits w) (stdin w !! n) = Some i \<and> 30 \<le> i
                          \<and> r = Inr (PInt i)))
                \<and> stdin w' = sdrop (Suc n) (stdin w)"
    if "prompt self w = Some (r, w')" for r w'
    using that [unfolded p] d o by (rule RefreshRate_prompt_returns)
  from a b c e f show ?thesis by blast
qed

theorem RefreshRate_prompt_bound_witness:
  "prompt \<lparr>cls = RefreshRateC, name = ''refresh-rate'',
          help' = ''Enter the amount of seconds to wait in between status refreshes'',
          default' = PInt 60, optional = True\<rparr>
     \<lparr>stdin = ''10'' ## ''abc'' ## ''30'' ## sconst ''x'', prompts = [], printed = [], dumped = [],
      config_yml = None, update_deps_calls = 0, max_str_digits = 4300\<rparr>
   = Some (Inr (PInt 30),
       \<lparr>stdin = sconst ''x'',
        prompts = [''Enter the amount of seconds to wait in between status refreshes [60]: '',
                   ''Enter the amount of seconds to wait in between status refreshes [60]: '',
                   ''Enter the amount of seconds to wait in between status refreshes [60]: ''],
        printed = [seconds_message], dumped = [], config_yml = None, update_deps_calls = 0, max_str_digits = 4300\<rparr>)
   \<and> prompt \<lparr>cls = RefreshRateC, name = ''refresh-rate'',
          help' = ''Enter the amount of seconds to wait in between status refreshes'',
          default' = PInt 60, optional = True\<rparr>
     \<lparr>stdin = ''45'' ## sconst ''x'', prompts = [], printed = [], dumped = [],
      config_yml = None, update_deps_calls = 0, max_str_digits = 4300\<rparr>
   = Some (Inr (PInt 45),
       \<lparr>stdin = sconst ''x'',
        prompts = [''Enter the amount of seconds to wait in between status refreshes [60]: ''],
        printed = [], dumped = [], config_yml = None, update_deps_calls = 0, max_str_digits = 4300\<rparr>)"
proof -
  let ?self = "\<lparr>cls = RefreshRateC, name = ''refresh-rate'',
          help' = ''Enter the amount of seconds to wait in between status refreshes'',
          default' = PInt 60, optional = True\<rparr>"
  let ?p = "''Enter the amount of seconds to wait in between status refreshes [60]: ''"
  let ?w0 = "\<lparr>stdin = ''10'' ## ''abc'' ## ''30'' ## sconst ''x'', prompts = [], printed = [], dumped = [],
      config_yml = None, update_deps_calls = 0, max_str_digits = 4300\<rparr>"
  let ?w1 = "\<lparr>stdin = ''abc'' ## ''30'' ## sconst ''x'', prompts = [?p], printed = [seconds_message],
      dumped = [], config_yml = None, update_deps_calls = 0, max_str_digits = 4300\<rparr>"
  let ?w2 = "\<lparr>stdin = ''30'' ## sconst ''x'', prompts = [?p, ?p], printed = [seconds_message],
      dumped = [], config_yml = None, update_deps_calls = 0, max_str_digits = 4300\<rparr>"
  let ?w3 = "\<lparr>stdin = sconst ''x'', prompts = [?p, ?p, ?p], printed = [seconds_message],
      dumped = [], config_yml = None, update_deps_calls = 0, max_str_digits = 4300\<rparr>"
  let ?v0 = "\<lparr>stdin = ''45'' ## sconst ''x'', prompts = [], printed = [], dumped = [],
      config_yml = None, update_deps_calls = 0, max_str_digits = 4300\<rparr>"
  let ?v1 = "\<lparr>stdin = sconst ''x'', prompts = [?p], printed = [], dumped = [],
      config_yml = None, update_deps_calls = 0, max_str_digits = 4300\<rparr>"
  note T = RefreshRate_prompt_bound [OF RefreshRate_eq]
  have "prompt ?self ?w0 = prompt ?self ?w1"
    using T [of ?w0, THEN conjunct1] by (simp add: input_def print_line_def)
  also have "\<dots> = prompt ?self ?w2"
    using T [of ?w1, THEN conjunct2, THEN conjunct1] by (simp add: input_def)
  also have "\<dots> = Some (Inr (PInt 30), ?w3)"
    using T [of ?w2, THEN conjunct2, THEN conjunct2, THEN conjunct1] by (simp add: input_def)
  finally have 1: "prompt ?self ?w0 = Some (Inr (PInt 30), ?w3)" .
  have 2: "prompt ?self ?v0 = Some (Inr (PInt 45), ?v1)"
    using T [of ?v0, THEN conjunct2, THEN conjunct2, THEN conjunct2, THEN conjunct1]
    by (simp add: input_def)
  from 1 2 show ?thesis by (rule conjI)
qed


subsection \<open>The constructor\<close>

lemma ConfigOption_init_truthy_default:
  "truthy d \<Longrightarrow> ConfigOption_init c n h d False = Inl ValueError"
  by (simp add: ConfigOption_init_def)

lemma ConfigOption_init_invariant:
  "ConfigOption_init c n h d opt = Inr self \<Longrightarrow> \<not> optional self \<Longrightarrow> \<not> truthy (default' self)"
  by (auto simp: ConfigOption_init_def split: if_splits)

lemma OPTIONS_invariant: "\<forall>option\<in>set OPTIONS. \<not> optional option \<longrightarrow> default' option = PNone"
  by (simp add: OPTIONS_eq)

text \<open>
  Claim C8 says that a constructed option that is not optional has no default. The guard
  of \<^verbatim>\<open>ConfigOption.__init__\<close> tests the truth value of the default, so the defaults 0
  and "" pass it: the option is constructed, not optional, with a default that is not None.
\<close>

theorem ConfigOption_init_falsy_default:
  "ConfigOption_init ConfigOptionC ''retries'' ''Enter the number of retries'' (PInt 0) False
     = Inr \<lparr>cls = ConfigOptionC, name = ''retries'', help' = ''Enter the number of retries'',
            default' = PInt 0, optional = False\<rparr>
   \<and> ConfigOption_init ConfigOptionC ''suffix'' ''Enter the suffix'' (PStr []) False
     = Inr \<lparr>cls = ConfigOptionC, name = ''suffix'', help' = ''Enter the suffix'',
            default' = PStr [], optional = False\<rparr>
   \<and> PInt 0 \<noteq> PNone \<and> PStr [] \<noteq> PNone"
  by (simp add: ConfigOption_init_def)

subsection \<open>The import of the document library\<close>

lemma import_yaml_first_try:
  "yaml_importable e (update_deps_calls w) \<Longrightarrow>
   import_yaml e \<lparr>loops = 0, import_attempts = 0\<rparr> w =
     (Inr (), \<lparr>loops = 0, import_attempts = Suc 0\<rparr>, w)"
  by simp

lemma run_setup_first_try:
  "yaml_importable e (update_deps_calls w) \<Longrightarrow>
   run_setup e w =
     (if config_yml w \<noteq> None
      then run_config_adjustments (set_iter e) (map name OPTIONS) (join '', '' (map name OPTIONS)) w
      else (case prompt_all OPTIONS Map.empty
                   (print_line ''Config file not found, initiating setup...'' w) of
              None \<Rightarrow> None
            | Some (Inl err, w2) \<Rightarrow> Some (Inl err, w2)
            | Some (Inr config, w2) \<Rightarrow>
                Some (Inr (), print_line ''Successfully created and setup config'' (dump config w2))))"
  by (simp add: run_setup_def import_yaml_first_try Let_def)

lemma import_yaml_second_try:
  assumes "\<not> yaml_importable e (update_deps_calls w)" "update_deps_bound e"
      and "yaml_importable e (Suc (update_deps_calls w))"
  shows "import_yaml e \<lparr>loops = 0, import_attempts = 0\<rparr> w =
           (Inr (), \<lparr>loops = Suc 0, import_attempts = Suc (Suc 0)\<rparr>,
            w\<lparr>printed := printed w @ [''Oh no! PyYAML is not installed. Trying to fix...''],
              update_deps_calls := Suc (update_deps_calls w)\<rparr>)"
  using assms by (simp add: Let_def print_line_def)

text \<open>
  Claim C9 says that exactly one remediation is attempted before the abort. When the
  import fails both times, \<^verbatim>\<open>update_deps\<close> is called a second time, after the second
  failed import and right before OSError is raised. In setup.py as it stands the name
  \<^verbatim>\<open>update_deps\<close> is not bound, and the first call already ends the run with NameError.
\<close>

theorem run_setup_yaml_unavailable:
  "run_setup \<lparr>set_iter = (\<lambda>S. []), update_deps_bound = True, yaml_importable = (\<lambda>n. False)\<rparr>
     \<lparr>stdin = sconst [], prompts = [], printed = [], dumped = [], config_yml = None,
      update_deps_calls = 0, max_str_digits = 4300\<rparr>
   = Some (Inl OSError,
       \<lparr>stdin = sconst [], prompts = [],
        printed = [''Oh no! PyYAML is not installed. Trying to fix...'',
                   ''Oh no! PyYAML is not installed. Trying to fix...''],
        dumped = [], config_yml = None, update_deps_calls = 2, max_str_digits = 4300\<rparr>)
   \<and> run_setup \<lparr>set_iter = (\<lambda>S. []), update_deps_bound = False, yaml_importable = (\<lambda>n. False)\<rparr>
     \<lparr>stdin = sconst [], prompts = [], printed = [], dumped = [], config_yml = None,
      update_deps_calls = 0, max_str_digits = 4300\<rparr>
   = Some (Inl NameError,
       \<lparr>stdin = sconst [], prompts = [],
        printed = [''Oh no! PyYAML is not installed. Trying to fix...''],
        dumped = [], config_yml = None, update_deps_calls = 0, max_str_digits = 4300\<rparr>)"
  by (simp add: run_setup_def Let_def print_line_def)


end
